theory Spec2Isabelle
  imports Complex_Main
begin

section \<open>Errors raised by the training script\<close>

text \<open>
  Every exception the modelled parts of \<^verbatim>\<open>Train.py\<close> can raise is a value; a
  computation that may raise returns \<open>py_error + 'a\<close> with \<open>Inl\<close> for the exception.
\<close>

datatype py_error =
    IndexError | KeyError | AssertionError | TypeError | ValueError
  | RuntimeError | FileNotFoundError | NameError

section \<open>Trial batches and numpy's unique\<close>

text \<open>
  A row of a \<^verbatim>\<open>behav\<close> batch is read at two columns only: \<^verbatim>\<open>behav[:, 0, 0]\<close>, the image
  index, and \<^verbatim>\<open>behav[:, 0, 5]\<close>, the row of the subject's voxel table. A row is the pair
  of the two.
\<close>

type_synonym behav_row = "int \<times> int"

definition image_col :: "behav_row list \<Rightarrow> int list" where
  "image_col behav = map fst behav"

definition voxel_col :: "behav_row list \<Rightarrow> int list" where
  "voxel_col behav = map snd behav"

text \<open>
  \<^verbatim>\<open>np.unique(a, return_index=True)\<close>: the sorted distinct values of \<^verbatim>\<open>a\<close>, and for each
  of them the position of its first occurrence in \<^verbatim>\<open>a\<close>.
\<close>

definition first_index :: "int list \<Rightarrow> int \<Rightarrow> nat" where
  "first_index xs v = length (takeWhile (\<lambda>x. x \<noteq> v) xs)"

definition np_unique :: "int list \<Rightarrow> int list \<times> nat list" where
  "np_unique xs = (let u = sort (remdups xs) in (u, map (first_index xs) u))"

text \<open>
  A random-access store (the hdf5 image dataset, a subject's voxel table) answers an index
  with a row or not at all; reading a list of indices raises at the first index without a
  row.
\<close>

fun fetch :: "(int \<rightharpoonup> 'a) \<Rightarrow> int list \<Rightarrow> py_error + 'a list" where
  "fetch store [] = Inr []"
| "fetch store (k # ks) =
     (case store k of
        None \<Rightarrow> Inl IndexError
      | Some v \<Rightarrow> (case fetch store ks of Inl e \<Rightarrow> Inl e | Inr vs \<Rightarrow> Inr (v # vs)))"

text \<open>
  \<^verbatim>\<open>image_iters[iter, s * batch_size:s * batch_size + batch_size] = image0\<close>: the slice has
  \<^verbatim>\<open>batch_size\<close> rows; torch accepts a value with as many rows, repeats a value of one
  row, and raises on any other.
\<close>

definition assign_slice :: "nat \<Rightarrow> 'a list \<Rightarrow> py_error + 'a list" where
  "assign_slice n rows =
     (if length rows = n then Inr rows
      else if length rows = 1 then Inr (replicate n (rows ! 0))
      else Inl RuntimeError)"

section \<open>Configuration and the staged schedule\<close>

text \<open>
  The globals the epoch loop reads. \<open>mixup_product\<close> is the double that the expression
  \<^verbatim>\<open>mixup_pct * num_epochs\<close> evaluates to, the product of the float \<^verbatim>\<open>mixup_pct\<close> and
  the integer \<^verbatim>\<open>num_epochs\<close> as floating-point multiplication rounds it; a finite
  double is a rational number, and a run whose product is an infinity or a NaN raises at
  \<^verbatim>\<open>int(mixup_pct * num_epochs)\<close> before the first epoch. \<open>mixco\<close> stands for
  \<^verbatim>\<open>utils.mixco\<close>, whose random draws depend on the call, named here by the key the
  result is stored under.
\<close>

record ('img, 'vox) ctx =
  batch_size :: nat
  num_iterations_per_epoch :: int
  mixup_product :: rat
  subj_list :: "nat list"
  images :: "int \<rightharpoonup> 'img"
  voxels :: "nat \<Rightarrow> int \<rightharpoonup> 'vox"
  mixco :: "nat \<times> int \<Rightarrow> 'vox list \<Rightarrow> 'vox list \<times> nat list \<times> real list \<times> bool list"

text \<open>
  Python's \<^verbatim>\<open>int(x)\<close> on a finite float, truncation towards zero, and the boundary
  \<^verbatim>\<open>int(mixup_pct * num_epochs)\<close> of the staged schedule.
\<close>

definition py_int :: "rat \<Rightarrow> int" where
  "py_int q = (if 0 \<le> q then \<lfloor>q\<rfloor> else \<lceil>q\<rceil>)"

definition mixup_boundary :: "('img, 'vox) ctx \<Rightarrow> int" where
  "mixup_boundary C = py_int (mixup_product C)"

section \<open>Pre-loading the batches of an epoch\<close>

text \<open>
  The buffers filled before the training iterations of an epoch. The slice of
  \<^verbatim>\<open>image_iters[iter]\<close> that belongs to position \<open>s\<close> of the subject list is stored under
  \<open>(iter, s)\<close>; a slice never written still holds the zeros of \<^verbatim>\<open>torch.zeros\<close> and is
  \<open>None\<close> here. The dictionaries are keyed by \<^verbatim>\<open>f"subj0{subj}_iter{iter}"\<close>, the pair
  of the subject and the iteration.
\<close>

record ('img, 'vox) epoch_bufs =
  image_iters :: "int \<times> nat \<rightharpoonup> 'img list"
  voxel_iters :: "nat \<times> int \<rightharpoonup> 'vox list"
  perm_iters :: "nat \<times> int \<rightharpoonup> nat list"
  betas_iters :: "nat \<times> int \<rightharpoonup> real list"
  select_iters :: "nat \<times> int \<rightharpoonup> bool list"

definition empty_bufs :: "('img, 'vox) epoch_bufs" where
  "empty_bufs = \<lparr>image_iters = Map.empty, voxel_iters = Map.empty,
     perm_iters = Map.empty, betas_iters = Map.empty, select_iters = Map.empty\<rparr>"

text \<open>
  The body of the loop for a batch that is kept, after \<^verbatim>\<open>iter += 1\<close>: the images are read
  at the sorted unique indices and written to the image buffer as read; the voxel rows
  are read at \<^verbatim>\<open>voxel_idx[image_sorted_idx]\<close>; in the mixup epochs the rows go through
  \<^verbatim>\<open>utils.mixco\<close> and its three descriptors are stored beside them.
\<close>

definition store_batch ::
  "('img, 'vox) ctx \<Rightarrow> nat \<Rightarrow> nat \<Rightarrow> behav_row list \<Rightarrow> int list \<Rightarrow> nat list \<Rightarrow> int \<Rightarrow>
   ('img, 'vox) epoch_bufs \<Rightarrow> py_error + ('img, 'vox) epoch_bufs" where
  "store_batch C epoch s behav0 image0 image_sorted_idx iter B =
     (case fetch (images C) image0 of
        Inl e \<Rightarrow> Inl e
      | Inr pics \<Rightarrow>
          if num_iterations_per_epoch C \<le> iter then Inl IndexError
          else
            (case assign_slice (batch_size C) pics of
               Inl e \<Rightarrow> Inl e
             | Inr slice \<Rightarrow>
                 (let B1 = B\<lparr>image_iters := (image_iters B)((iter, s) \<mapsto> slice)\<rparr>;
                      voxel_idx = voxel_col behav0;
                      voxel_sorted_idx = map (\<lambda>j. voxel_idx ! j) image_sorted_idx;
                      subj = subj_list C ! s
                  in case fetch (voxels C subj) voxel_sorted_idx of
                       Inl e \<Rightarrow> Inl e
                     | Inr voxel0 \<Rightarrow>
                         if int epoch < mixup_boundary C then
                           (case mixco C (subj, iter) voxel0 of
                              (voxel0', perm, betas, select) \<Rightarrow>
                                Inr (B1\<lparr>perm_iters := (perm_iters B1)((subj, iter) \<mapsto> perm),
                                        betas_iters := (betas_iters B1)((subj, iter) \<mapsto> betas),
                                        select_iters := (select_iters B1)((subj, iter) \<mapsto> select),
                                        voxel_iters := (voxel_iters B1)((subj, iter) \<mapsto> voxel0')\<rparr>))
                         else Inr (B1\<lparr>voxel_iters := (voxel_iters B1)((subj, iter) \<mapsto> voxel0)\<rparr>))))"

text \<open>
  The loop over one subject's stream, \<^verbatim>\<open>for behav0, ... in train_dl\<close>, on the batches
  the stream yields. A batch whose unique image indices are fewer than its rows is
  skipped by \<^verbatim>\<open>continue\<close>; the loop leaves by \<^verbatim>\<open>break\<close> once the quota of the epoch is
  stored.
\<close>

fun preload_stream ::
  "('img, 'vox) ctx \<Rightarrow> nat \<Rightarrow> nat \<Rightarrow> behav_row list list \<Rightarrow> int \<Rightarrow>
   ('img, 'vox) epoch_bufs \<Rightarrow> py_error + ('img, 'vox) epoch_bufs" where
  "preload_stream C epoch s [] iter B = Inr B"
| "preload_stream C epoch s (behav0 # rest) iter B =
     (let image_idx = image_col behav0 in
      case np_unique image_idx of
        (image0, image_sorted_idx) \<Rightarrow>
          if length image0 \<noteq> length image_idx then preload_stream C epoch s rest iter B
          else
            (case store_batch C epoch s behav0 image0 image_sorted_idx (iter + 1) B of
               Inl e \<Rightarrow> Inl e
             | Inr B' \<Rightarrow>
                 if iter + 1 \<ge> num_iterations_per_epoch C - 1 then Inr B'
                 else preload_stream C epoch s rest (iter + 1) B'))"



section \<open>The contrastive loss of a training iteration\<close>

text \<open>
  The descriptors of iteration \<open>train_i\<close>: for every subject of the list the entry under
  \<^verbatim>\<open>f"subj0{s}_iter{train_i}"\<close>, concatenated by \<^verbatim>\<open>torch.cat\<close>. A missing key raises.
\<close>

fun cat_lookup :: "(nat \<times> int \<rightharpoonup> 'a list) \<Rightarrow> nat list \<Rightarrow> int \<Rightarrow> py_error + 'a list" where
  "cat_lookup d [] train_i = Inr []"
| "cat_lookup d (subj # subjs) train_i =
     (case d (subj, train_i) of
        None \<Rightarrow> Inl KeyError
      | Some x \<Rightarrow>
          (case cat_lookup d subjs train_i of Inl e \<Rightarrow> Inl e | Inr xs \<Rightarrow> Inr (x @ xs)))"

text \<open>
  Which loss function the iteration calls, and on what besides the two normalised
  embeddings: \<^verbatim>\<open>utils.mixco_nce\<close> with a temperature and the three descriptors, or
  \<^verbatim>\<open>utils.soft_clip_loss\<close> with a temperature.
\<close>

datatype clip_loss_call =
    Mixco_nce rat "nat list" "real list" "bool list"
  | Soft_clip_loss real

text \<open>
  The choice is the one made under \<^verbatim>\<open>if clip_scale > 0\<close>; the mixup branch reads the
  descriptors the iteration gathered under the same test on the epoch.
  \<open>soft_loss_temps\<close> is the tensor \<^verbatim>\<open>utils.cosine_anneal(0.004, 0.0075, num_epochs -
  int(mixup_pct * num_epochs))\<close> returns; it is read at \<^verbatim>\<open>epoch - int(mixup_pct *
  num_epochs)\<close>, which is not negative in the branch that reads it.
\<close>

definition loss_clip_mixco ::
  "('img, 'vox) ctx \<Rightarrow> ('img, 'vox) epoch_bufs \<Rightarrow> int \<Rightarrow> py_error + clip_loss_call" where
  "loss_clip_mixco C B train_i =
     (case cat_lookup (perm_iters B) (subj_list C) train_i of
        Inl e \<Rightarrow> Inl e
      | Inr perm \<Rightarrow>
          (case cat_lookup (betas_iters B) (subj_list C) train_i of
             Inl e \<Rightarrow> Inl e
           | Inr betas \<Rightarrow>
               (case cat_lookup (select_iters B) (subj_list C) train_i of
                  Inl e \<Rightarrow> Inl e
                | Inr select \<Rightarrow> Inr (Mixco_nce (6 / 1000) perm betas select))))"

definition loss_clip_soft ::
  "('img, 'vox) ctx \<Rightarrow> real list \<Rightarrow> nat \<Rightarrow> py_error + clip_loss_call" where
  "loss_clip_soft C soft_loss_temps epoch =
     (let k = int epoch - mixup_boundary C in
      if k < int (length soft_loss_temps) then Inr (Soft_clip_loss (soft_loss_temps ! nat k))
      else Inl IndexError)"

definition loss_clip ::
  "('img, 'vox) ctx \<Rightarrow> real list \<Rightarrow> ('img, 'vox) epoch_bufs \<Rightarrow> nat \<Rightarrow> int \<Rightarrow>
   py_error + clip_loss_call" where
  "loss_clip C soft_loss_temps B epoch train_i =
     (if int epoch < mixup_boundary C then loss_clip_mixco C B train_i
      else loss_clip_soft C soft_loss_temps epoch)"

section \<open>Mixup of the image latents\<close>

text \<open>
  \<^verbatim>\<open>image_enc_shuf = image_enc[perm]\<close> and the masked assignment that follows it, on a
  batch of latents: row \<open>i\<close> of the mask's choice becomes
  \<^verbatim>\<open>image_enc[i] * betas[i] + image_enc_shuf[i] * (1 - betas[i])\<close>, every other row
  stays. A row is an element of a real vector space, a coefficient a real number. Torch
  raises when an index of \<open>perm\<close> is out of range or the mask, the coefficients and the
  rows differ in number.
\<close>

definition mixup_rows ::
  "'v::real_vector list \<Rightarrow> nat list \<Rightarrow> real list \<Rightarrow> bool list \<Rightarrow> py_error + 'v list" where
  "mixup_rows image_enc perm betas select =
     (if (\<exists>j \<in> set perm. length image_enc \<le> j) \<or> length select \<noteq> length image_enc
         \<or> length betas \<noteq> length select \<or> length perm \<noteq> length select
      then Inl IndexError
      else Inr (map (\<lambda>i. if select ! i
                          then (betas ! i) *\<^sub>R (image_enc ! i)
                               + (1 - betas ! i) *\<^sub>R (image_enc ! (perm ! i))
                          else image_enc ! i)
                    [0..<length image_enc]))"

section \<open>The training iterations\<close>

text \<open>The total loss of an iteration is a float: a finite number, an infinity or a NaN.\<close>

datatype loss_value = Finite rat | PosInf | NegInf | NaN

fun is_finite :: "loss_value \<Rightarrow> bool" where
  "is_finite (Finite x) = True"
| "is_finite PosInf = False"
| "is_finite NegInf = False"
| "is_finite NaN = False"

text \<open>
  Modelled from the spec: \<^verbatim>\<open>utils.check_loss\<close> is not among the sources. The
  specification has a total loss with a non-finite value abort the step, loudly, with no
  optimizer update for that iteration. The script calls it as a statement and drops its
  result, so what it can do to abort is raise; it raises on a non-finite loss and returns
  on a finite one.
\<close>

definition check_loss :: "loss_value \<Rightarrow> py_error + unit" where
  "check_loss loss = (if is_finite loss then Inr () else Inl ValueError)"

text \<open>
  The globals of the training loop: the epoch counter, the model's parameters by name,
  the states of the optimizer and of the scheduler, the three histories.
\<close>

record ('p, 'o, 's) train_state =
  cur_epoch :: int
  model_params :: "(string \<times> 'p) list"
  optimizer_state :: 'o
  scheduler_state :: 's
  losses :: "loss_value list"
  test_losses :: "loss_value list"
  lrs :: "rat list"

text \<open>
  What the iteration does through torch: \<^verbatim>\<open>accelerator.backward(loss);
  optimizer.step()\<close> on the parameters and the optimizer, the learning rate of the first
  parameter group, and \<^verbatim>\<open>lr_scheduler.step()\<close> on the scheduler and the optimizer.
\<close>

record ('p, 'o, 's) torch_ops =
  backward_and_step :: "loss_value \<Rightarrow> (string \<times> 'p) list \<Rightarrow> 'o \<Rightarrow> (string \<times> 'p) list \<times> 'o"
  current_lr :: "'o \<Rightarrow> rat"
  scheduler_step :: "'s \<Rightarrow> 'o \<Rightarrow> 's \<times> 'o"
  has_lr_scheduler :: bool

text \<open>
  The end of an iteration, from \<^verbatim>\<open>utils.check_loss(loss)\<close> to \<^verbatim>\<open>lr_scheduler.step()\<close>,
  on the total loss the iteration computed.
\<close>

definition finish_iteration ::
  "('p, 'o, 's) torch_ops \<Rightarrow> loss_value \<Rightarrow> ('p, 'o, 's) train_state \<Rightarrow>
   py_error + ('p, 'o, 's) train_state" where
  "finish_iteration T loss S =
     (case check_loss loss of
        Inl e \<Rightarrow> Inl e
      | Inr _ \<Rightarrow>
          (case backward_and_step T loss (model_params S) (optimizer_state S) of
             (params, opt) \<Rightarrow>
               (let S1 = S\<lparr>model_params := params, optimizer_state := opt,
                            losses := losses S @ [loss],
                            lrs := lrs S @ [current_lr T opt]\<rparr>
                in if has_lr_scheduler T then
                     (case scheduler_step T (scheduler_state S1) (optimizer_state S1) of
                        (sched, opt') \<Rightarrow>
                          Inr (S1\<lparr>scheduler_state := sched, optimizer_state := opt'\<rparr>))
                   else Inr S1)))"

text \<open>
  \<^verbatim>\<open>for train_i in range(num_iterations_per_epoch)\<close> on the total losses of the
  iterations, and the loop \<^verbatim>\<open>for epoch in range(epoch, num_epochs)\<close> around it, from the
  epoch \<open>e\<close> on, on the losses of each epoch. Nothing in either loop catches an
  exception: the run ends where one is raised, in the state it had then.
\<close>

fun train_iterations ::
  "('p, 'o, 's) torch_ops \<Rightarrow> loss_value list \<Rightarrow> ('p, 'o, 's) train_state \<Rightarrow>
   ('p, 'o, 's) train_state \<times> py_error option" where
  "train_iterations T [] S = (S, None)"
| "train_iterations T (loss # later) S =
     (case finish_iteration T loss S of
        Inl e \<Rightarrow> (S, Some e)
      | Inr S' \<Rightarrow> train_iterations T later S')"

fun train_epochs ::
  "('p, 'o, 's) torch_ops \<Rightarrow> int \<Rightarrow> loss_value list list \<Rightarrow> ('p, 'o, 's) train_state \<Rightarrow>
   ('p, 'o, 's) train_state \<times> py_error option" where
  "train_epochs T e [] S = (S, None)"
| "train_epochs T e (epoch_losses # later) S =
     (case train_iterations T epoch_losses (S\<lparr>cur_epoch := e\<rparr>) of
        (S', Some err) \<Rightarrow> (S', Some err)
      | (S', None) \<Rightarrow> train_epochs T (e + 1) later S')"

section \<open>Checkpoints\<close>

text \<open>The dictionary \<^verbatim>\<open>torch.save\<close> writes, and the files of the run by path.\<close>

record ('p, 'o, 's) checkpoint =
  ck_epoch :: int
  ck_model_state_dict :: "(string \<times> 'p) list"
  ck_optimizer_state_dict :: 'o
  ck_lr_scheduler :: 's
  ck_train_losses :: "loss_value list"
  ck_test_losses :: "loss_value list"
  ck_lrs :: "rat list"

type_synonym ('p, 'o, 's) files = "string \<rightharpoonup> ('p, 'o, 's) checkpoint"

definition save_ckpt ::
  "string \<Rightarrow> bool \<Rightarrow> string \<Rightarrow> ('p, 'o, 's) train_state \<Rightarrow> ('p, 'o, 's) files \<Rightarrow>
   ('p, 'o, 's) files" where
  "save_ckpt outdir is_main_process tag S fs =
     (let ckpt_path = outdir @ ''/'' @ tag @ ''.pth'' in
      if is_main_process then
        fs(ckpt_path \<mapsto>
             \<lparr>ck_epoch = cur_epoch S,
              ck_model_state_dict = model_params S,
              ck_optimizer_state_dict = optimizer_state S,
              ck_lr_scheduler = scheduler_state S,
              ck_train_losses = losses S,
              ck_test_losses = test_losses S,
              ck_lrs = lrs S\<rparr>)
      else fs)"

text \<open>
  \<^verbatim>\<open>model.load_state_dict(state_dict, strict=strict)\<close>: a strict load raises unless the
  names of the dictionary are the names of the model; every parameter the dictionary
  names takes the dictionary's value, every other keeps its own.
\<close>

definition load_state_dict ::
  "(string \<times> 'p) list \<Rightarrow> (string \<times> 'p) list \<Rightarrow> bool \<Rightarrow> py_error + (string \<times> 'p) list" where
  "load_state_dict own state_dict strict =
     (if strict \<and> set (map fst state_dict) \<noteq> set (map fst own) then Inl RuntimeError
      else Inr (map (\<lambda>(name, v). case map_of state_dict name of
                                     None \<Rightarrow> (name, v)
                                   | Some v' \<Rightarrow> (name, v')) own))"

text \<open>
  \<^verbatim>\<open>load_ckpt\<close>, with its parameters in the order of the source. The file it opens is
  \<^verbatim>\<open>outdir + '/last.pth'\<close>.
\<close>

definition load_ckpt ::
  "string \<Rightarrow> bool \<Rightarrow> bool \<Rightarrow> bool \<Rightarrow> bool \<Rightarrow> string \<Rightarrow> bool \<Rightarrow>
   ('p, 'o, 's) train_state \<Rightarrow> ('p, 'o, 's) files \<Rightarrow> py_error + ('p, 'o, 's) train_state" where
  "load_ckpt tag load_lr load_optimizer load_epoch strict outdir multisubj_loading S fs =
     (case fs (outdir @ ''/last.pth'') of
        None \<Rightarrow> Inl FileNotFoundError
      | Some ckpt \<Rightarrow>
          (let state_dict = ck_model_state_dict ckpt;
               state_dict = (if multisubj_loading
                             then filter (\<lambda>(name, v). name \<noteq> ''ridge.linears.0.weight'') state_dict
                             else state_dict)
           in case load_state_dict (model_params S) state_dict strict of
                Inl e \<Rightarrow> Inl e
              | Inr params \<Rightarrow>
                  (let S1 = S\<lparr>model_params := params\<rparr>;
                       S2 = (if load_epoch then S1\<lparr>cur_epoch := ck_epoch ckpt\<rparr> else S1);
                       S3 = (if load_optimizer
                             then S2\<lparr>optimizer_state := ck_optimizer_state_dict ckpt\<rparr> else S2);
                       S4 = (if load_lr
                             then S3\<lparr>scheduler_state := ck_lr_scheduler ckpt\<rparr> else S3)
                   in Inr S4)))"

section \<open>The evaluation pass\<close>

text \<open>\<^verbatim>\<open>torch.where(im == image)[0]\<close>: the positions of \<open>im\<close> in \<^verbatim>\<open>image\<close>, ascending.\<close>

definition torch_where_eq :: "int \<Rightarrow> int list \<Rightarrow> nat list" where
  "torch_where_eq im image_ids = filter (\<lambda>i. image_ids ! i = im) [0..<length image_ids]"

text \<open>
  The padding of the positions of an image to three repeat slots, and the assertion
  after it: \<^verbatim>\<open>locs.repeat(3)\<close> for one position, \<^verbatim>\<open>locs.repeat(2)[:3]\<close> for two.
\<close>

definition pad_locs :: "nat list \<Rightarrow> py_error + nat list" where
  "pad_locs locs =
     (let locs' = (if length locs = 1 then concat (replicate 3 locs)
                   else if length locs = 2 then take 3 (concat (replicate 2 locs))
                   else locs)
      in if length locs' = 3 then Inr locs' else Inl AssertionError)"

text \<open>
  \<^verbatim>\<open>test_image\<close> and \<^verbatim>\<open>test_voxel\<close>, both \<^verbatim>\<open>None\<close> before the loop over the epochs. A
  stimulus of \<open>test_voxel\<close> is the list of the voxel rows of its repeat slots.
\<close>

record ('img, 'vox) test_set =
  test_image :: "'img list option"
  test_voxel :: "'vox list list option"

definition no_test_set :: "('img, 'vox) test_set" where
  "no_test_set = \<lparr>test_image = None, test_voxel = None\<rparr>"

text \<open>The body of \<^verbatim>\<open>for im in unique_image\<close>.\<close>

definition add_test_image ::
  "('img, 'vox) ctx \<Rightarrow> 'vox list \<Rightarrow> int list \<Rightarrow> ('img, 'vox) test_set \<Rightarrow> int \<Rightarrow>
   py_error + ('img, 'vox) test_set" where
  "add_test_image C voxel image_ids TS im =
     (case pad_locs (torch_where_eq im image_ids) of
        Inl e \<Rightarrow> Inl e
      | Inr locs \<Rightarrow>
          (case images C im of
             None \<Rightarrow> Inl IndexError
           | Some pic \<Rightarrow>
               (let rows = map (\<lambda>l. voxel ! l) locs in
                case test_image TS of
                  None \<Rightarrow> Inr \<lparr>test_image = Some [pic], test_voxel = Some [rows]\<rparr>
                | Some ti \<Rightarrow>
                    (case test_voxel TS of
                       None \<Rightarrow> Inl TypeError
                     | Some tv \<Rightarrow>
                         Inr \<lparr>test_image = Some (ti @ [pic]),
                              test_voxel = Some (tv @ [rows])\<rparr>))))"

fun add_test_images ::
  "('img, 'vox) ctx \<Rightarrow> 'vox list \<Rightarrow> int list \<Rightarrow> int list \<Rightarrow> ('img, 'vox) test_set \<Rightarrow>
   py_error + ('img, 'vox) test_set" where
  "add_test_images C voxel image_ids [] TS = Inr TS"
| "add_test_images C voxel image_ids (im # ims) TS =
     (case add_test_image C voxel image_ids TS im of
        Inl e \<Rightarrow> Inl e
      | Inr TS' \<Rightarrow> add_test_images C voxel image_ids ims TS')"

text \<open>
  The block under \<^verbatim>\<open>if test_image is None\<close>, for the test batch \<open>behav\<close> of the subject
  the run validates on; \<^verbatim>\<open>torch.unique\<close> gives the sorted distinct image indices.
\<close>

definition build_test_set ::
  "('img, 'vox) ctx \<Rightarrow> nat \<Rightarrow> behav_row list \<Rightarrow> ('img, 'vox) test_set \<Rightarrow>
   py_error + ('img, 'vox) test_set" where
  "build_test_set C subj behav TS =
     (if test_image TS = None then
        (case fetch (voxels C subj) (voxel_col behav) of
           Inl e \<Rightarrow> Inl e
         | Inr voxel \<Rightarrow>
             (let image_ids = image_col behav;
                  unique_image = sort (remdups image_ids)
              in add_test_images C voxel image_ids unique_image TS))
      else Inr TS)"

text \<open>
  What a test batch is evaluated on: \<^verbatim>\<open>test_voxel[test_indices]\<close> and
  \<^verbatim>\<open>test_image[test_indices]\<close> with \<^verbatim>\<open>test_indices = torch.arange(len(test_voxel))[:]\<close>,
  that is all of both.
\<close>

definition eval_inputs ::
  "('img, 'vox) ctx \<Rightarrow> nat \<Rightarrow> behav_row list \<Rightarrow> ('img, 'vox) test_set \<Rightarrow>
   py_error + (('img, 'vox) test_set \<times> ('vox list list \<times> 'img list))" where
  "eval_inputs C subj behav TS =
     (case build_test_set C subj behav TS of
        Inl e \<Rightarrow> Inl e
      | Inr TS' \<Rightarrow>
          (case test_voxel TS' of
             None \<Rightarrow> Inl TypeError
           | Some tv \<Rightarrow>
               (case test_image TS' of
                  None \<Rightarrow> Inl TypeError
                | Some ti \<Rightarrow> Inr (TS', (tv, ti)))))"

text \<open>
  \<^verbatim>\<open>for test_i, (behav, _, _, _) in enumerate(test_dl)\<close> in one epoch, and the epochs one
  after another; the result lists what each test batch was evaluated on.
\<close>

fun eval_batches ::
  "('img, 'vox) ctx \<Rightarrow> nat \<Rightarrow> behav_row list list \<Rightarrow> ('img, 'vox) test_set \<Rightarrow>
   py_error + (('img, 'vox) test_set \<times> ('vox list list \<times> 'img list) list)" where
  "eval_batches C subj [] TS = Inr (TS, [])"
| "eval_batches C subj (behav # later) TS =
     (case eval_inputs C subj behav TS of
        Inl e \<Rightarrow> Inl e
      | Inr (TS', ev) \<Rightarrow>
          (case eval_batches C subj later TS' of
             Inl e \<Rightarrow> Inl e
           | Inr (TS'', evs) \<Rightarrow> Inr (TS'', ev # evs)))"

fun eval_epochs ::
  "('img, 'vox) ctx \<Rightarrow> nat \<Rightarrow> behav_row list list list \<Rightarrow> ('img, 'vox) test_set \<Rightarrow>
   py_error + (('img, 'vox) test_set \<times> ('vox list list \<times> 'img list) list)" where
  "eval_epochs C subj [] TS = Inr (TS, [])"
| "eval_epochs C subj (test_dl # later) TS =
     (case eval_batches C subj test_dl TS of
        Inl e \<Rightarrow> Inl e
      | Inr (TS', evs) \<Rightarrow>
          (case eval_epochs C subj later TS' of
             Inl e \<Rightarrow> Inl e
           | Inr (TS'', evs') \<Rightarrow> Inr (TS'', evs @ evs')))"

subsection \<open>Averaging over the repeats\<close>

text \<open>
  \<^verbatim>\<open>voxel[:, rep]\<close>: slot \<open>rep\<close> of every stimulus. \<open>fwd\<close> stands for the forward path
  \<^verbatim>\<open>model.backbone(model.ridge(., 0))\<close> on the batch of these rows; it returns the
  conditioning tensor, the contrastive embedding and the blurry-image output. Tensors are
  elements of real vector spaces.
\<close>

definition repeat_column :: "'vox list list \<Rightarrow> nat \<Rightarrow> py_error + 'vox list" where
  "repeat_column voxel rep =
     (if \<forall>row \<in> set voxel. rep < length row then Inr (map (\<lambda>row. row ! rep) voxel)
      else Inl IndexError)"

text \<open>
  The body of \<^verbatim>\<open>for rep in range(3)\<close>; \<open>acc\<close> holds \<^verbatim>\<open>clip_voxels\<close>, \<^verbatim>\<open>backbone\<close> and
  \<^verbatim>\<open>blurry_image_enc_\<close> once they are bound.
\<close>

definition rep_step ::
  "('vox list \<Rightarrow> 'b \<times> 'c \<times> 'bl) \<Rightarrow> 'vox list list \<Rightarrow> ('c \<times> 'b \<times> 'bl) option \<Rightarrow> nat \<Rightarrow>
   py_error + ('c::real_vector \<times> 'b::real_vector \<times> 'bl)" where
  "rep_step fwd voxel acc rep =
     (case repeat_column voxel rep of
        Inl e \<Rightarrow> Inl e
      | Inr column \<Rightarrow>
          (case fwd column of
             (backbone0, clip_voxels0, blurry_image_enc) \<Rightarrow>
               if rep = 0 then Inr (clip_voxels0, backbone0, blurry_image_enc)
               else
                 (case acc of
                    None \<Rightarrow> Inl NameError
                  | Some (clip_voxels, backbone, _) \<Rightarrow>
                      Inr (clip_voxels + clip_voxels0, backbone + backbone0,
                           blurry_image_enc))))"

fun rep_loop ::
  "('vox list \<Rightarrow> 'b \<times> 'c \<times> 'bl) \<Rightarrow> 'vox list list \<Rightarrow> nat list \<Rightarrow> ('c \<times> 'b \<times> 'bl) option \<Rightarrow>
   py_error + ('c::real_vector \<times> 'b::real_vector \<times> 'bl) option" where
  "rep_loop fwd voxel [] acc = Inr acc"
| "rep_loop fwd voxel (rep # reps) acc =
     (case rep_step fwd voxel acc rep of
        Inl e \<Rightarrow> Inl e
      | Inr acc' \<Rightarrow> rep_loop fwd voxel reps (Some acc'))"

text \<open>The loop over \<^verbatim>\<open>range(3)\<close>, then \<^verbatim>\<open>clip_voxels /= 3\<close> and \<^verbatim>\<open>backbone /= 3\<close>.\<close>

definition averaged_forward ::
  "('vox list \<Rightarrow> 'b \<times> 'c \<times> 'bl) \<Rightarrow> 'vox list list \<Rightarrow>
   py_error + ('c::real_vector \<times> 'b::real_vector \<times> 'bl)" where
  "averaged_forward fwd voxel =
     (case rep_loop fwd voxel [0..<3] None of
        Inl e \<Rightarrow> Inl e
      | Inr None \<Rightarrow> Inl NameError
      | Inr (Some (clip_voxels, backbone, blurry_image_enc)) \<Rightarrow>
          Inr (clip_voxels /\<^sub>R 3, backbone /\<^sub>R 3, blurry_image_enc))"

text \<open>
  The loss terms of a test batch. \<open>prior_loss\<close> stands for the loss
  \<^verbatim>\<open>model.diffusion_prior\<close> returns on the rows \<^verbatim>\<open>random_samps\<close> of the conditioning
  tensor and of the target; \<open>soft_clip\<close> for \<^verbatim>\<open>utils.soft_clip_loss\<close> at temperature
  \<^verbatim>\<open>.006\<close> on the two normalised, flattened embeddings.
\<close>

record ('b, 'c, 't) test_terms =
  use_prior :: bool
  prior_scale :: real
  clip_scale :: real
  prior_loss :: "'b \<Rightarrow> 't \<Rightarrow> real"
  soft_clip :: "'c \<Rightarrow> 't \<Rightarrow> real"

definition test_loss ::
  "('b::real_vector, 'c::real_vector, 't) test_terms \<Rightarrow> ('vox list \<Rightarrow> 'b \<times> 'c \<times> 'bl) \<Rightarrow>
   'vox list list \<Rightarrow> 't \<Rightarrow> py_error + real" where
  "test_loss L fwd voxel clip_target =
     (case averaged_forward fwd voxel of
        Inl e \<Rightarrow> Inl e
      | Inr (clip_voxels, backbone, blurry_image_enc) \<Rightarrow>
          (let loss = 0;
               loss = (if use_prior L
                       then loss + prior_loss L backbone clip_target * prior_scale L
                       else loss);
               loss = (if clip_scale L > 0
                       then loss + soft_clip L clip_voxels clip_target * clip_scale L
                       else loss)
           in Inr loss))"

section \<open>A small run\<close>

text \<open>
  One subject, batches of two trials, two iterations in an epoch, and the product 1.0 of
  \<^verbatim>\<open>--mixup_pct 0.5 --num_epochs 2\<close>, so that the first epoch is the one mixup epoch;
  images are named by strings, a voxel row is one number, and \<^verbatim>\<open>utils.mixco\<close> draws
  the identity permutation and an empty selection.
\<close>

definition demo_ctx :: "(string, real) ctx" where
  "demo_ctx = \<lparr>batch_size = 2, num_iterations_per_epoch = 2,
     mixup_product = 1, subj_list = [1],
     images = [2 \<mapsto> ''two'', 5 \<mapsto> ''five'', 7 \<mapsto> ''seven''],
     voxels = (\<lambda>subj. [0 \<mapsto> 10, 1 \<mapsto> 11, 2 \<mapsto> 12, 3 \<mapsto> 13]),
     mixco = (\<lambda>key voxel0. (voxel0, [0..<length voxel0],
                replicate (length voxel0) 1, replicate (length voxel0) False))\<rparr>"

text \<open>The buffers after the batch of the images 5 and 2 in the second epoch.\<close>

definition demo_bufs :: "(string, real) epoch_bufs" where
  "demo_bufs = empty_bufs\<lparr>image_iters := [(0, 0) \<mapsto> [''two'', ''five'']],
                         voxel_iters := [(1, 0) \<mapsto> [11, 10]]\<rparr>"

text \<open>The buffers after the same batch in the first epoch, a mixup epoch.\<close>

definition demo_mix_bufs :: "(string, real) epoch_bufs" where
  "demo_mix_bufs = empty_bufs\<lparr>image_iters := [(0, 0) \<mapsto> [''two'', ''five'']],
                         perm_iters := [(1, 0) \<mapsto> [0, 1]],
                         betas_iters := [(1, 0) \<mapsto> [1, 1]],
                         select_iters := [(1, 0) \<mapsto> [False, False]],
                         voxel_iters := [(1, 0) \<mapsto> [11, 10]]\<rparr>"

text \<open>
  A forward path on rows of one number, and loss terms to go with it: the conditioning
  tensor is the sum of the rows, the contrastive embedding twice the sum.
\<close>

definition demo_fwd :: "real list \<Rightarrow> real \<times> real \<times> unit" where
  "demo_fwd column = (sum_list column, 2 * sum_list column, ())"

definition demo_terms :: "(real, real, real) test_terms" where
  "demo_terms = \<lparr>use_prior = True, prior_scale = 30, clip_scale = 1,
     prior_loss = (\<lambda>backbone target. backbone - target),
     soft_clip = (\<lambda>clip_voxels target. clip_voxels + target)\<rparr>"

text \<open>
  A stand-in for torch: the optimizer and the scheduler count their steps, the learning
  rate is constant; and the state a run starts in.
\<close>

definition demo_ops :: "(int, nat, nat) torch_ops" where
  "demo_ops = \<lparr>backward_and_step = (\<lambda>loss params opt. (params, Suc opt)),
     current_lr = (\<lambda>opt. 3 / 10000),
     scheduler_step = (\<lambda>sched opt. (Suc sched, opt)),
     has_lr_scheduler = True\<rparr>"

definition demo_state :: "(int, nat, nat) train_state" where
  "demo_state = \<lparr>cur_epoch = 0, model_params = [(''ridge.linears.0.weight'', 0)],
     optimizer_state = 0, scheduler_state = 0, losses = [], test_losses = [], lrs = []\<rparr>"

text \<open>The state of the small run after \<open>n\<close> epochs.\<close>

definition demo_trained :: "int \<Rightarrow> (int, nat, nat) train_state" where
  "demo_trained n = demo_state\<lparr>cur_epoch := n,
     model_params := [(''ridge.linears.0.weight'', 10 * n)],
     optimizer_state := nat n, scheduler_state := nat n\<rparr>"

text \<open>
  Two epochs of test batches for the small run, and the test set their first batch gives.
\<close>

definition demo_test_set :: "(string, real) test_set" where
  "demo_test_set = \<lparr>test_image = Some [''two'', ''five''],
                     test_voxel = Some [[11, 11, 11], [10, 12, 10]]\<rparr>"

definition demo_test_epochs :: "behav_row list list list" where
  "demo_test_epochs = [[[(5, 0), (2, 1), (5, 2)], [(7, 3)]], [[(7, 3), (2, 1)]]]"


section \<open>Properties of numpy's unique\<close>

lemma np_unique_values: "fst (np_unique xs) = sort (remdups xs)"
  by (simp add: np_unique_def Let_def)

lemma np_unique_length: "length (fst (np_unique xs)) = card (set xs)"
  by (simp add: np_unique_values length_remdups_card_conv)

lemma np_unique_length_le: "length (fst (np_unique xs)) \<le> length xs"
  by (simp add: np_unique_length card_length)

lemma np_unique_full_iff: "length (fst (np_unique xs)) = length xs \<longleftrightarrow> distinct xs"
  by (auto simp: np_unique_length distinct_card dest: card_distinct)

section \<open>Batches with a repeated image are dropped\<close>

lemma preload_stream_skip:
  assumes "\<not> distinct (image_col behav0)"
  shows "preload_stream C epoch s (behav0 # rest) iter B = preload_stream C epoch s rest iter B"
proof -
  obtain image0 image_sorted_idx where u: "np_unique (image_col behav0) = (image0, image_sorted_idx)"
    by (cases "np_unique (image_col behav0)")
  have "length image0 \<noteq> length (image_col behav0)"
    using assms np_unique_full_iff [of "image_col behav0"] u by simp
  then show ?thesis using u by simp
qed

lemma preload_stream_filter:
  "preload_stream C epoch s stream iter B =
   preload_stream C epoch s (filter (\<lambda>b. distinct (image_col b)) stream) iter B"
proof (induction stream arbitrary: iter B)
  case Nil
  show ?case by simp
next
  case (Cons behav0 rest)
  show ?case
  proof (cases "distinct (image_col behav0)")
    case False
    then show ?thesis
      using Cons.IH [of iter B] preload_stream_skip [of behav0 C epoch s rest iter B]
      by (simp del: preload_stream.simps)
  next
    case True
    obtain image0 image_sorted_idx where u: "np_unique (image_col behav0) = (image0, image_sorted_idx)"
      by (cases "np_unique (image_col behav0)")
    have len: "length image0 = length (image_col behav0)"
      using True np_unique_full_iff [of "image_col behav0"] u by simp
    show ?thesis using True u len Cons.IH
      by (simp split: sum.splits)
  qed
qed

text \<open>
  C1. A fetched batch whose unique image indices are fewer than its rows (some image
  repeats) is skipped whole: the loop goes on with the next batch, with the iteration
  counter and every buffer as they were. The unique indices are never more than the
  rows, and as many exactly when the rows' image indices are pairwise distinct; so what
  the pre-loading stores is what it stores on the stream's batches with pairwise distinct
  image indices alone.
\<close>

theorem duplicate_batches_discarded:
  "length (fst (np_unique (image_col behav0))) \<le> length (image_col behav0) \<and>
   (length (fst (np_unique (image_col behav0))) < length (image_col behav0)
      \<longleftrightarrow> \<not> distinct (image_col behav0)) \<and>
   (length (fst (np_unique (image_col behav0))) < length (image_col behav0) \<longrightarrow>
      preload_stream C epoch s (behav0 # rest) iter B = preload_stream C epoch s rest iter B) \<and>
   preload_stream C epoch s stream iter B =
     preload_stream C epoch s (filter (\<lambda>b. distinct (image_col b)) stream) iter B"
proof -
  have le: "length (fst (np_unique (image_col behav0))) \<le> length (image_col behav0)"
    by (rule np_unique_length_le)
  have iff: "length (fst (np_unique (image_col behav0))) < length (image_col behav0)
      \<longleftrightarrow> \<not> distinct (image_col behav0)"
    using le np_unique_full_iff [of "image_col behav0"] by linarith
  show ?thesis
    using le iff preload_stream_skip [of behav0 C epoch s rest iter B]
      preload_stream_filter [of C epoch s stream iter B]
    by blast
qed

theorem duplicate_batches_discarded_witness:
  "length (fst (np_unique (image_col [(7, 0), (7, 1)]))) < length (image_col [(7, 0), (7, 1)]) \<and>
   preload_stream demo_ctx 1 0 [[(7, 0), (7, 1)], [(5, 2), (2, 3)]] (- 1) empty_bufs =
   preload_stream demo_ctx 1 0 [[(5, 2), (2, 3)]] (- 1) empty_bufs"
proof -
  have h: "length (fst (np_unique (image_col [(7, 0), (7, 1)]))) < length (image_col [(7, 0), (7, 1)])"
    by (simp add: np_unique_def image_col_def Let_def)
  from h duplicate_batches_discarded [of "[(7, 0), (7, 1)]" demo_ctx 1 0 "[[(5, 2), (2, 3)]]" "- 1" empty_bufs]
  show ?thesis by blast
qed

section \<open>Reading a kept batch\<close>

lemma fetch_length: "fetch store ks = Inr vs \<Longrightarrow> length vs = length ks"
  by (induction ks arbitrary: vs) (auto split: option.splits sum.splits)

lemma fetch_nth: "fetch store ks = Inr vs \<Longrightarrow> i < length ks \<Longrightarrow> store (ks ! i) = Some (vs ! i)"
proof (induction ks arbitrary: vs i)
  case Nil
  then show ?case by simp
next
  case (Cons k ks)
  then show ?case
    by (cases i) (auto split: option.splits sum.splits)
qed

lemma first_index_less: "v \<in> set xs \<Longrightarrow> first_index xs v < length xs"
  unfolding first_index_def by (induction xs) auto

lemma nth_first_index: "v \<in> set xs \<Longrightarrow> xs ! first_index xs v = v"
  unfolding first_index_def by (induction xs) auto

lemma first_index_inj: "inj_on (first_index xs) (set xs)"
  by (rule inj_onI) (metis nth_first_index)

lemma np_unique_indices: "snd (np_unique xs) = map (first_index xs) (sort (remdups xs))"
  by (simp add: np_unique_def Let_def)

lemma np_unique_index_length: "length (snd (np_unique xs)) = length (fst (np_unique xs))"
  by (simp add: np_unique_indices np_unique_values)

lemma np_unique_index_nth:
  assumes "i < length (fst (np_unique xs))"
  shows "snd (np_unique xs) ! i < length xs \<and> xs ! (snd (np_unique xs) ! i) = fst (np_unique xs) ! i"
proof -
  have "sort (remdups xs) ! i \<in> set (sort (remdups xs))"
    using assms by (intro nth_mem) (simp add: np_unique_values)
  then have mem: "fst (np_unique xs) ! i \<in> set xs"
    by (simp add: np_unique_values)
  have "snd (np_unique xs) ! i = first_index xs (fst (np_unique xs) ! i)"
    using assms by (simp add: np_unique_indices np_unique_values)
  then show ?thesis using mem first_index_less nth_first_index by simp
qed

lemma np_unique_index_distinct: "distinct (snd (np_unique xs))"
proof -
  have "inj_on (first_index xs) (set (sort (remdups xs)))"
    using first_index_inj [of xs] by simp
  then show ?thesis
    by (simp add: np_unique_indices distinct_map)
qed

lemma np_unique_index_set:
  assumes "distinct xs"
  shows "set (snd (np_unique xs)) = {..<length xs}"
proof (rule card_subset_eq)
  show "finite {..<length xs}" by simp
  show "set (snd (np_unique xs)) \<subseteq> {..<length xs}"
    using first_index_less by (auto simp: np_unique_indices)
  have "card (set (snd (np_unique xs))) = length (snd (np_unique xs))"
    using np_unique_index_distinct by (rule distinct_card)
  also have "\<dots> = length xs"
    using assms by (simp add: np_unique_index_length np_unique_full_iff)
  finally show "card (set (snd (np_unique xs))) = card {..<length xs}" by simp
qed

lemma np_unique_sorted_values: "distinct xs \<Longrightarrow> fst (np_unique xs) = sort xs"
  by (simp add: np_unique_values distinct_remdups_id)

lemma assign_slice_length: "assign_slice n rows = Inr slice \<Longrightarrow> length slice = n"
  by (auto simp: assign_slice_def split: if_splits)

lemma assign_slice_nth:
  "assign_slice n rows = Inr slice \<Longrightarrow> 0 < n \<Longrightarrow> i < length rows \<Longrightarrow> slice ! i = rows ! i"
  by (auto simp: assign_slice_def split: if_splits)

text \<open>What a stored batch leaves in the buffers.\<close>

lemma store_batch_Inr:
  assumes "store_batch C epoch s behav0 image0 image_sorted_idx iter B = Inr B'"
  shows "\<exists>pics slice voxel0.
      fetch (images C) image0 = Inr pics \<and>
      assign_slice (batch_size C) pics = Inr slice \<and>
      fetch (voxels C (subj_list C ! s)) (map (\<lambda>j. voxel_col behav0 ! j) image_sorted_idx) = Inr voxel0 \<and>
      image_iters B' (iter, s) = Some slice \<and>
      voxel_iters B' (subj_list C ! s, iter) =
        Some (if int epoch < mixup_boundary C
              then fst (mixco C (subj_list C ! s, iter) voxel0) else voxel0)"
  using assms
  by (auto simp: store_batch_def Let_def split: sum.splits if_splits prod.splits)


lemma retained_batch_facts:
  assumes u: "np_unique (image_col behav0) = (image0, image_sorted_idx)"
    and len: "length image0 = length (image_col behav0)"
  shows "distinct (image_col behav0)" and "image0 = sort (image_col behav0)"
    and "length image0 = length behav0" and "length image_sorted_idx = length behav0"
    and "distinct image_sorted_idx" and "set image_sorted_idx = {..<length behav0}"
    and "\<And>i. i < length behav0 \<Longrightarrow>
           image_sorted_idx ! i < length behav0 \<and>
           fst (behav0 ! (image_sorted_idx ! i)) = image0 ! i"
proof -
  have f: "fst (np_unique (image_col behav0)) = image0"
    and g: "snd (np_unique (image_col behav0)) = image_sorted_idx"
    using u by simp_all
  show d: "distinct (image_col behav0)"
    using np_unique_full_iff [of "image_col behav0"] f len by simp
  show "image0 = sort (image_col behav0)"
    using np_unique_sorted_values [OF d] f by simp
  show l: "length image0 = length behav0"
    using len by (simp add: image_col_def)
  show "length image_sorted_idx = length behav0"
    using np_unique_index_length [of "image_col behav0"] f g l by simp
  show "distinct image_sorted_idx"
    using np_unique_index_distinct [of "image_col behav0"] g by simp
  show "set image_sorted_idx = {..<length behav0}"
    using np_unique_index_set [OF d] g by (simp add: image_col_def)
  fix i assume i: "i < length behav0"
  then have "i < length (fst (np_unique (image_col behav0)))"
    using f l by simp
  from np_unique_index_nth [OF this]
  have a: "image_sorted_idx ! i < length behav0"
    and b: "image_col behav0 ! (image_sorted_idx ! i) = image0 ! i"
    using f g by (simp_all add: image_col_def)
  show "image_sorted_idx ! i < length behav0 \<and>
        fst (behav0 ! (image_sorted_idx ! i)) = image0 ! i"
    using a b by (simp add: image_col_def)
qed


text \<open>
  C8, as amended. In a batch that is kept, the images are read at the sorted unique
  image indices and stored in the image buffer in that order, ascending in the image
  index; they are not put back in the order of the batch.
\<close>

theorem images_stored_in_sorted_order:
  assumes u: "np_unique (image_col behav0) = (image0, image_sorted_idx)"
    and len: "length image0 = length (image_col behav0)"
    and bs: "0 < batch_size C"
    and st: "store_batch C epoch s behav0 image0 image_sorted_idx iter B = Inr B'"
  shows "\<exists>slice.
      image_iters B' (iter, s) = Some slice \<and> length slice = batch_size C \<and>
      (\<forall>i<length behav0. images C (sort (image_col behav0) ! i) = Some (slice ! i))"
proof -
  from store_batch_Inr [OF st] obtain pics slice where
    fp: "fetch (images C) image0 = Inr pics" and
    sl: "assign_slice (batch_size C) pics = Inr slice" and
    im: "image_iters B' (iter, s) = Some slice"
    by blast
  note r = retained_batch_facts [OF u len]
  have "images C (sort (image_col behav0) ! i) = Some (slice ! i)" if i: "i < length behav0" for i
  proof -
    have "images C (image0 ! i) = Some (pics ! i)"
      using fetch_nth [OF fp] i r(3) by simp
    moreover have "slice ! i = pics ! i"
      using assign_slice_nth [OF sl bs] i fetch_length [OF fp] r(3) by simp
    ultimately show ?thesis using r(2) by simp
  qed
  then show ?thesis
    using im assign_slice_length [OF sl] by blast
qed

text \<open>
  C8 as stated fails on the batch of the images 5 and 2, in this order: the buffer holds
  the image 2 before the image 5.
\<close>

theorem rescatter_counterexample:
  "(case preload_stream demo_ctx 1 0 [[(5, 0), (2, 1)]] (- 1) empty_bufs of
      Inl e \<Rightarrow> None | Inr B \<Rightarrow> image_iters B (0, 0)) = Some [''two'', ''five''] \<and>
   fetch (images demo_ctx) (image_col [(5, 0), (2, 1)]) = Inr [''five'', ''two''] \<and>
   [''two'', ''five''] \<noteq> [''five'', ''two'']"
  by (simp add: np_unique_def image_col_def first_index_def store_batch_def demo_ctx_def
      assign_slice_def voxel_col_def mixup_boundary_def py_int_def empty_bufs_def)

theorem images_stored_in_sorted_order_witness:
  "np_unique (image_col [(5, 0), (2, 1)]) = ([2, 5], [1, 0]) \<and>
   length [2, 5 :: int] = length (image_col [(5, 0), (2, 1)]) \<and>
   0 < batch_size demo_ctx \<and>
   store_batch demo_ctx 1 0 [(5, 0), (2, 1)] [2, 5] [1, 0] 0 empty_bufs = Inr demo_bufs \<and>
   (\<exists>slice.
      image_iters demo_bufs (0, 0) = Some slice \<and> length slice = batch_size demo_ctx \<and>
      (\<forall>i<length [(5, 0), (2, 1) :: behav_row].
          images demo_ctx (sort (image_col [(5, 0), (2, 1)]) ! i) = Some (slice ! i)))"
proof -
  have h1: "np_unique (image_col [(5, 0), (2, 1)]) = ([2, 5], [1, 0])"
    by (simp add: np_unique_def image_col_def first_index_def)
  have h2: "length [2, 5 :: int] = length (image_col [(5, 0), (2, 1)])"
    by (simp add: image_col_def)
  have h3: "0 < batch_size demo_ctx"
    by (simp add: demo_ctx_def)
  have h4: "store_batch demo_ctx 1 0 [(5, 0), (2, 1)] [2, 5] [1, 0] 0 empty_bufs = Inr demo_bufs"
    by (simp add: store_batch_def demo_ctx_def assign_slice_def voxel_col_def
        mixup_boundary_def py_int_def empty_bufs_def demo_bufs_def)
  show ?thesis
    by (intro conjI h1 h2 h3 h4 images_stored_in_sorted_order [OF h1 h2 h3 h4])
qed

section \<open>The switch between the two contrastive losses\<close>

lemma py_int_less_iff: "int e < py_int q \<longleftrightarrow> int e < \<lfloor>q\<rfloor>"
proof (cases "0 \<le> q")
  case True
  then show ?thesis by (simp add: py_int_def)
next
  case False
  then have "\<lceil>q\<rceil> \<le> 0" and "\<lfloor>q\<rfloor> < 0" by (simp_all add: ceiling_le_zero)
  moreover have "0 \<le> int e" by simp
  ultimately have "\<not> int e < \<lceil>q\<rceil>" and "\<not> int e < \<lfloor>q\<rfloor>" by linarith+
  then show ?thesis using False by (simp add: py_int_def)
qed

lemma mixup_regime_iff:
  "int e < mixup_boundary C \<longleftrightarrow> int e < \<lfloor>mixup_product C\<rfloor>"
  by (simp add: mixup_boundary_def py_int_less_iff)

lemma loss_clip_mixco_Inr:
  assumes "loss_clip_mixco C B train_i = Inr call"
  shows "\<exists>perm betas select.
      call = Mixco_nce (6 / 1000) perm betas select \<and>
      cat_lookup (perm_iters B) (subj_list C) train_i = Inr perm \<and>
      cat_lookup (betas_iters B) (subj_list C) train_i = Inr betas \<and>
      cat_lookup (select_iters B) (subj_list C) train_i = Inr select"
  using assms by (auto simp: loss_clip_mixco_def split: sum.splits)

lemma loss_clip_soft_Inr:
  assumes "loss_clip_soft C soft_loss_temps e = Inr call"
  shows "call = Soft_clip_loss (soft_loss_temps ! nat (int e - mixup_boundary C)) \<and>
         int e - mixup_boundary C < int (length soft_loss_temps)"
  using assms by (auto simp: loss_clip_soft_def Let_def split: if_splits)

lemma store_batch_descriptors:
  assumes "store_batch C e s behav0 image0 image_sorted_idx iter B = Inr B'"
  shows "if int e < mixup_boundary C
         then \<exists>voxel0 voxel0' perm betas select.
                mixco C (subj_list C ! s, iter) voxel0 = (voxel0', perm, betas, select) \<and>
                voxel_iters B' (subj_list C ! s, iter) = Some voxel0' \<and>
                perm_iters B' (subj_list C ! s, iter) = Some perm \<and>
                betas_iters B' (subj_list C ! s, iter) = Some betas \<and>
                select_iters B' (subj_list C ! s, iter) = Some select
         else perm_iters B' = perm_iters B \<and> betas_iters B' = betas_iters B \<and>
              select_iters B' = select_iters B"
  using assms
  by (auto simp: store_batch_def Let_def split: sum.splits if_splits prod.splits)

text \<open>
  C2. The contrastive loss of an iteration is chosen by the epoch alone, at the boundary
  \<open>\<lfloor>mixup_pct * num_epochs\<rfloor>\<close>, the floor of the product as the script computes it, in
  floating point: in an epoch below it the iteration calls
  \<^verbatim>\<open>utils.mixco_nce\<close> with the temperature 0.006 and the descriptors stored for this
  iteration, in every epoch from it on \<^verbatim>\<open>utils.soft_clip_loss\<close> with the temperature
  of \<open>soft_loss_temps\<close> at the epoch's distance from the boundary, and never a mixture.
  The pre-loading of the epoch stores the descriptors of \<^verbatim>\<open>utils.mixco\<close> beside the
  voxel rows under the same switch.
\<close>

theorem regime_hard_switch:
  "loss_clip C soft_loss_temps B e train_i =
     (if int e < \<lfloor>mixup_product C\<rfloor>
      then loss_clip_mixco C B train_i else loss_clip_soft C soft_loss_temps e) \<and>
   (int e < \<lfloor>mixup_product C\<rfloor> \<longrightarrow>
      (\<forall>call. loss_clip C soft_loss_temps B e train_i = Inr call \<longrightarrow>
         (\<exists>perm betas select.
            call = Mixco_nce (6 / 1000) perm betas select \<and>
            cat_lookup (perm_iters B) (subj_list C) train_i = Inr perm \<and>
            cat_lookup (betas_iters B) (subj_list C) train_i = Inr betas \<and>
            cat_lookup (select_iters B) (subj_list C) train_i = Inr select))) \<and>
   (\<lfloor>mixup_product C\<rfloor> \<le> int e \<longrightarrow>
      (\<forall>call. loss_clip C soft_loss_temps B e train_i = Inr call \<longrightarrow>
         call = Soft_clip_loss (soft_loss_temps ! nat (int e - mixup_boundary C)) \<and>
         0 \<le> int e - mixup_boundary C \<and>
         int e - mixup_boundary C < int (length soft_loss_temps))) \<and>
   (\<forall>B0 B' s behav0 image0 image_sorted_idx iter.
      store_batch C e s behav0 image0 image_sorted_idx iter B0 = Inr B' \<longrightarrow>
        (if int e < \<lfloor>mixup_product C\<rfloor>
         then \<exists>voxel0 voxel0' perm betas select.
                mixco C (subj_list C ! s, iter) voxel0 = (voxel0', perm, betas, select) \<and>
                voxel_iters B' (subj_list C ! s, iter) = Some voxel0' \<and>
                perm_iters B' (subj_list C ! s, iter) = Some perm \<and>
                betas_iters B' (subj_list C ! s, iter) = Some betas \<and>
                select_iters B' (subj_list C ! s, iter) = Some select
         else perm_iters B' = perm_iters B0 \<and> betas_iters B' = betas_iters B0 \<and>
              select_iters B' = select_iters B0))"
proof (intro conjI impI allI)
  let ?F = "\<lfloor>mixup_product C\<rfloor>"
  show sw: "loss_clip C soft_loss_temps B e train_i =
     (if int e < ?F then loss_clip_mixco C B train_i else loss_clip_soft C soft_loss_temps e)"
    by (simp add: loss_clip_def mixup_regime_iff)
  {
    fix call
    assume "int e < ?F" and "loss_clip C soft_loss_temps B e train_i = Inr call"
    then have "loss_clip_mixco C B train_i = Inr call" using sw by simp
    then show "\<exists>perm betas select.
            call = Mixco_nce (6 / 1000) perm betas select \<and>
            cat_lookup (perm_iters B) (subj_list C) train_i = Inr perm \<and>
            cat_lookup (betas_iters B) (subj_list C) train_i = Inr betas \<and>
            cat_lookup (select_iters B) (subj_list C) train_i = Inr select"
      by (rule loss_clip_mixco_Inr)
  }
  {
    fix call
    assume ge: "?F \<le> int e" and "loss_clip C soft_loss_temps B e train_i = Inr call"
    then have "loss_clip_soft C soft_loss_temps e = Inr call" using sw by simp
    from loss_clip_soft_Inr [OF this]
    show "call = Soft_clip_loss (soft_loss_temps ! nat (int e - mixup_boundary C))"
      and "int e - mixup_boundary C < int (length soft_loss_temps)" by simp_all
    show "0 \<le> int e - mixup_boundary C"
      using ge mixup_regime_iff [of e C] by linarith
  }
  fix B0 B' s behav0 image0 image_sorted_idx iter
  assume "store_batch C e s behav0 image0 image_sorted_idx iter B0 = Inr B'"
  from store_batch_descriptors [OF this]
  show "if int e < ?F
         then \<exists>voxel0 voxel0' perm betas select.
                mixco C (subj_list C ! s, iter) voxel0 = (voxel0', perm, betas, select) \<and>
                voxel_iters B' (subj_list C ! s, iter) = Some voxel0' \<and>
                perm_iters B' (subj_list C ! s, iter) = Some perm \<and>
                betas_iters B' (subj_list C ! s, iter) = Some betas \<and>
                select_iters B' (subj_list C ! s, iter) = Some select
         else perm_iters B' = perm_iters B0 \<and> betas_iters B' = betas_iters B0 \<and>
              select_iters B' = select_iters B0"
    by (simp only: mixup_regime_iff)
qed

text \<open>
  With \<^verbatim>\<open>--mixup_pct 0.3333333333333333 --num_epochs 150\<close> the product rounds to the
  double 50.0: the boundary is 50, whatever the exact product of the two numbers is.
\<close>

lemma rounded_product_boundary: "mixup_product C = 50 \<Longrightarrow> mixup_boundary C = 50"
  by (simp add: mixup_boundary_def py_int_def)

lemma demo_floor: "\<lfloor>mixup_product demo_ctx\<rfloor> = 1"
  by (simp add: demo_ctx_def)

lemma demo_subj_list: "subj_list demo_ctx = [1]"
  by (simp add: demo_ctx_def)

lemma demo_boundary: "mixup_boundary demo_ctx = 1"
  by (simp add: mixup_boundary_def py_int_def demo_ctx_def)

lemma demo_mix_call: "loss_clip demo_ctx [4 / 1000, 75 / 10000] demo_mix_bufs 0 0
     = Inr (Mixco_nce (6 / 1000) [0, 1] [1, 1] [False, False])"
  by (simp add: loss_clip_def demo_boundary loss_clip_mixco_def demo_mix_bufs_def empty_bufs_def
      demo_subj_list)

lemma demo_soft_call: "loss_clip demo_ctx [4 / 1000, 75 / 10000] demo_mix_bufs 1 0
     = Inr (Soft_clip_loss (4 / 1000))"
  by (simp add: loss_clip_def demo_boundary loss_clip_soft_def)

lemma demo_store_mix: "store_batch demo_ctx 0 0 [(5, 0), (2, 1)] [2, 5] [1, 0] 0 empty_bufs = Inr demo_mix_bufs"
    by (simp add: store_batch_def demo_ctx_def assign_slice_def voxel_col_def
        mixup_boundary_def py_int_def empty_bufs_def demo_mix_bufs_def)


theorem regime_hard_switch_witness:
  "int 0 < \<lfloor>mixup_product demo_ctx\<rfloor> \<and>
   loss_clip demo_ctx [4 / 1000, 75 / 10000] demo_mix_bufs 0 0
     = Inr (Mixco_nce (6 / 1000) [0, 1] [1, 1] [False, False]) \<and>
   (\<exists>perm betas select.
       Mixco_nce (6 / 1000) [0, 1] [1, 1] [False, False] = Mixco_nce (6 / 1000) perm betas select \<and>
       cat_lookup (perm_iters demo_mix_bufs) (subj_list demo_ctx) 0 = Inr perm \<and>
       cat_lookup (betas_iters demo_mix_bufs) (subj_list demo_ctx) 0 = Inr betas \<and>
       cat_lookup (select_iters demo_mix_bufs) (subj_list demo_ctx) 0 = Inr select) \<and>
   \<lfloor>mixup_product demo_ctx\<rfloor> \<le> int 1 \<and>
   loss_clip demo_ctx [4 / 1000, 75 / 10000] demo_mix_bufs 1 0 = Inr (Soft_clip_loss (4 / 1000)) \<and>
   Soft_clip_loss (4 / 1000)
     = Soft_clip_loss ([4 / 1000, 75 / 10000] ! nat (int 1 - mixup_boundary demo_ctx)) \<and>
   store_batch demo_ctx 0 0 [(5, 0), (2, 1)] [2, 5] [1, 0] 0 empty_bufs = Inr demo_mix_bufs \<and>
   (\<exists>voxel0 voxel0' perm betas select.
       mixco demo_ctx (subj_list demo_ctx ! 0, 0) voxel0 = (voxel0', perm, betas, select) \<and>
       voxel_iters demo_mix_bufs (subj_list demo_ctx ! 0, 0) = Some voxel0' \<and>
       perm_iters demo_mix_bufs (subj_list demo_ctx ! 0, 0) = Some perm \<and>
       betas_iters demo_mix_bufs (subj_list demo_ctx ! 0, 0) = Some betas \<and>
       select_iters demo_mix_bufs (subj_list demo_ctx ! 0, 0) = Some select)"
proof -
  note mix = regime_hard_switch [of demo_ctx "[4 / 1000, 75 / 10000]" demo_mix_bufs 0 0]
  note soft = regime_hard_switch [of demo_ctx "[4 / 1000, 75 / 10000]" demo_mix_bufs 1 0]
  have a: "int 0 < \<lfloor>mixup_product demo_ctx\<rfloor>"
    by (simp add: demo_floor)
  have b: "\<lfloor>mixup_product demo_ctx\<rfloor> \<le> int 1"
    by (simp add: demo_floor)
  have c: "\<exists>perm betas select.
       Mixco_nce (6 / 1000) [0, 1] [1, 1] [False, False] = Mixco_nce (6 / 1000) perm betas select \<and>
       cat_lookup (perm_iters demo_mix_bufs) (subj_list demo_ctx) 0 = Inr perm \<and>
       cat_lookup (betas_iters demo_mix_bufs) (subj_list demo_ctx) 0 = Inr betas \<and>
       cat_lookup (select_iters demo_mix_bufs) (subj_list demo_ctx) 0 = Inr select"
    by (rule mix [THEN conjunct2, THEN conjunct1, rule_format, OF a demo_mix_call])
  have d: "Soft_clip_loss (4 / 1000)
     = Soft_clip_loss ([4 / 1000, 75 / 10000] ! nat (int 1 - mixup_boundary demo_ctx))"
    using soft [THEN conjunct2, THEN conjunct2, THEN conjunct1, rule_format, OF b demo_soft_call]
    by (rule conjunct1)
  have e: "\<exists>voxel0 voxel0' perm betas select.
       mixco demo_ctx (subj_list demo_ctx ! 0, 0) voxel0 = (voxel0', perm, betas, select) \<and>
       voxel_iters demo_mix_bufs (subj_list demo_ctx ! 0, 0) = Some voxel0' \<and>
       perm_iters demo_mix_bufs (subj_list demo_ctx ! 0, 0) = Some perm \<and>
       betas_iters demo_mix_bufs (subj_list demo_ctx ! 0, 0) = Some betas \<and>
       select_iters demo_mix_bufs (subj_list demo_ctx ! 0, 0) = Some select"
    using mix [THEN conjunct2, THEN conjunct2, THEN conjunct2, rule_format, OF demo_store_mix] a
    by (simp only: if_True)
  show ?thesis
    by (intro conjI a b c d e demo_mix_call demo_soft_call demo_store_mix)
qed

section \<open>Mixup on a fixed point of the permutation\<close>

lemma mixup_rows_Inr:
  assumes "mixup_rows image_enc perm betas select = Inr mixed" and "i < length image_enc"
  shows "mixed ! i = (if select ! i
                      then (betas ! i) *\<^sub>R (image_enc ! i)
                           + (1 - betas ! i) *\<^sub>R (image_enc ! (perm ! i))
                      else image_enc ! i)"
  using assms by (auto simp: mixup_rows_def split: if_splits)

lemma blend_with_itself: "b *\<^sub>R (x :: 'v::real_vector) + (1 - b) *\<^sub>R x = x"
  by (simp add: scaleR_left_distrib [symmetric])

text \<open>
  C4. Where the permutation sends a sample to itself, the mixture
  \<open>x[i] * beta[i] + x[perm[i]] * (1 - beta[i])\<close> is \<open>x[i]\<close> for every coefficient, and
  the row the interpolation leaves at \<open>i\<close> is the original row, in the selection mask or
  out of it.
\<close>

theorem mixup_fixed_point_unchanged:
  assumes "mixup_rows image_enc perm betas select = Inr mixed"
    and "i < length image_enc" and "perm ! i = i"
  shows "(betas ! i) *\<^sub>R (image_enc ! i) + (1 - betas ! i) *\<^sub>R (image_enc ! (perm ! i))
           = image_enc ! i \<and>
         mixed ! i = image_enc ! i"
  using mixup_rows_Inr [OF assms(1,2)] assms(3) by (simp add: blend_with_itself)

lemma demo_mixup:
  "mixup_rows [2, 5 :: real] [0, 0] [1 / 4, 1 / 2] [True, True] = Inr [2, 7 / 2]"
  by (simp add: mixup_rows_def upt_rec)

theorem mixup_fixed_point_unchanged_witness:
  "mixup_rows [2, 5 :: real] [0, 0] [1 / 4, 1 / 2] [True, True] = Inr [2, 7 / 2] \<and>
   0 < length [2, 5 :: real] \<and> [0, 0 :: nat] ! 0 = 0 \<and>
   ([1 / 4, 1 / 2] ! 0) *\<^sub>R ([2, 5 :: real] ! 0)
     + (1 - [1 / 4, 1 / 2] ! 0) *\<^sub>R ([2, 5 :: real] ! ([0, 0] ! 0)) = [2, 5 :: real] ! 0 \<and>
   [2, 7 / 2 :: real] ! 0 = [2, 5 :: real] ! 0"
proof -
  have h2: "0 < length [2, 5 :: real]" by simp
  have h3: "[0, 0 :: nat] ! 0 = 0" by simp
  note t = mixup_fixed_point_unchanged [OF demo_mixup h2 h3]
  show ?thesis
    by (intro conjI demo_mixup h2 h3 t [THEN conjunct1] t [THEN conjunct2])
qed

section \<open>Averaging the repeats of a test stimulus\<close>

lemma upt_3: "[0..<3] = [0, 1, 2]"
  by (simp add: upt_rec)

text \<open>
  C5. The evaluation runs the forward path once on each of the three repeat slots; the
  contrastive embedding and the conditioning tensor it goes on with are the sums of the
  three outputs divided by three, \<open>(a + b + c) / 3\<close>, and the prior term and the
  contrastive term of the test loss are computed from these averages.
\<close>

theorem repeats_averaged:
  assumes "repeat_column voxel 0 = Inr v0" and "repeat_column voxel 1 = Inr v1"
    and "repeat_column voxel 2 = Inr v2"
    and "fwd v0 = (b0, c0, bl0)" and "fwd v1 = (b1, c1, bl1)" and "fwd v2 = (b2, c2, bl2)"
  shows "averaged_forward fwd voxel = Inr ((c0 + c1 + c2) /\<^sub>R 3, (b0 + b1 + b2) /\<^sub>R 3, bl2) \<and>
         test_loss L fwd voxel clip_target =
           Inr ((if use_prior L
                 then prior_loss L ((b0 + b1 + b2) /\<^sub>R 3) clip_target * prior_scale L else 0)
                + (if clip_scale L > 0
                   then soft_clip L ((c0 + c1 + c2) /\<^sub>R 3) clip_target * clip_scale L else 0))"
proof -
  have avg: "averaged_forward fwd voxel
      = Inr ((c0 + c1 + c2) /\<^sub>R 3, (b0 + b1 + b2) /\<^sub>R 3, bl2)"
    using assms by (simp add: averaged_forward_def upt_3 rep_step_def)
  show ?thesis
    by (simp add: avg test_loss_def)
qed

theorem repeats_averaged_witness:
  "repeat_column [[1, 2, 3], [4, 5, 6 :: real]] 0 = Inr [1, 4] \<and>
   repeat_column [[1, 2, 3], [4, 5, 6 :: real]] 1 = Inr [2, 5] \<and>
   repeat_column [[1, 2, 3], [4, 5, 6 :: real]] 2 = Inr [3, 6] \<and>
   demo_fwd [1, 4] = (5, 10, ()) \<and> demo_fwd [2, 5] = (7, 14, ()) \<and>
   demo_fwd [3, 6] = (9, 18, ()) \<and>
   averaged_forward demo_fwd [[1, 2, 3], [4, 5, 6]] = Inr (14, 7, ()) \<and>
   test_loss demo_terms demo_fwd [[1, 2, 3], [4, 5, 6]] 1 = Inr ((7 - 1) * 30 + (14 + 1) * 1)"
proof -
  have h0: "repeat_column [[1, 2, 3], [4, 5, 6 :: real]] 0 = Inr [1, 4]"
    and h1: "repeat_column [[1, 2, 3], [4, 5, 6 :: real]] 1 = Inr [2, 5]"
    and h2: "repeat_column [[1, 2, 3], [4, 5, 6 :: real]] 2 = Inr [3, 6]"
    by (simp_all add: repeat_column_def)
  have f0: "demo_fwd [1, 4] = (5, 10, ())" and f1: "demo_fwd [2, 5] = (7, 14, ())"
    and f2: "demo_fwd [3, 6] = (9, 18, ())"
    by (simp_all add: demo_fwd_def)
  note t = repeats_averaged [OF h0 h1 h2 f0 f1 f2, of demo_terms 1]
  have a: "averaged_forward demo_fwd [[1, 2, 3], [4, 5, 6]] = Inr (14, 7, ())"
    using t [THEN conjunct1] by simp
  have l: "test_loss demo_terms demo_fwd [[1, 2, 3], [4, 5, 6]] 1 = Inr ((7 - 1) * 30 + (14 + 1) * 1)"
    using t [THEN conjunct2] by (simp add: demo_terms_def)
  show ?thesis
    by (intro conjI h0 h1 h2 f0 f1 f2 a l)
qed

section \<open>Grouping the repeats of a test image\<close>

lemma torch_where_eq_snoc:
  "torch_where_eq im (xs @ [x]) =
     torch_where_eq im xs @ (if x = im then [length xs] else [])"
proof -
  have "filter (\<lambda>i. (xs @ [x]) ! i = im) [0..<length xs] = filter (\<lambda>i. xs ! i = im) [0..<length xs]"
    by (rule filter_cong) (auto simp: nth_append)
  then show ?thesis by (simp add: torch_where_eq_def)
qed

lemma torch_where_eq_length: "length (torch_where_eq im image_ids) = count_list image_ids im"
proof (induction image_ids rule: rev_induct)
  case Nil
  show ?case by (simp add: torch_where_eq_def)
next
  case (snoc x xs)
  then show ?case by (simp add: torch_where_eq_snoc)
qed

lemma pad_locs_one: "length locs = 1 \<Longrightarrow> pad_locs locs = Inr [locs ! 0, locs ! 0, locs ! 0]"
  by (cases locs) (simp_all add: pad_locs_def numeral_3_eq_3)

lemma pad_locs_two: "length locs = 2 \<Longrightarrow> pad_locs locs = Inr [locs ! 0, locs ! 1, locs ! 0]"
proof -
  assume "length locs = 2"
  then obtain a b where "locs = [a, b]"
    by (auto simp: length_Suc_conv numeral_2_eq_2)
  then show ?thesis by (simp add: pad_locs_def numeral_2_eq_2)
qed

lemma pad_locs_three: "length locs = 3 \<Longrightarrow> pad_locs locs = Inr locs"
  by (simp add: pad_locs_def)

lemma pad_locs_other: "length locs = 0 \<or> 3 < length locs \<Longrightarrow> pad_locs locs = Inl AssertionError"
  by (auto simp: pad_locs_def)

lemma pad_locs_Inr:
  assumes "pad_locs locs = Inr padded"
  shows "length padded = 3 \<and> set padded = set locs \<and> 1 \<le> length locs \<and> length locs \<le> 3"
proof -
  consider "length locs = 1" | "length locs = 2" | "length locs = 3"
    | "length locs = 0 \<or> 3 < length locs" by linarith
  then show ?thesis
  proof cases
    case 1
    then obtain a where "locs = [a]" by (auto simp: length_Suc_conv)
    then show ?thesis using assms pad_locs_one [OF 1] by auto
  next
    case 2
    then obtain a b where "locs = [a, b]" by (auto simp: length_Suc_conv numeral_2_eq_2)
    then show ?thesis using assms pad_locs_two [OF 2] by auto
  next
    case 3
    then show ?thesis using assms pad_locs_three [OF 3] by auto
  next
    case 4
    then show ?thesis using assms pad_locs_other [OF 4] by simp
  qed
qed

lemma add_test_image_Inr:
  assumes "add_test_image C voxel image_ids TS im = Inr TS'"
  shows "\<exists>padded tv.
           pad_locs (torch_where_eq im image_ids) = Inr padded \<and>
           test_voxel TS' = Some (tv @ [map (\<lambda>l. voxel ! l) padded])"
  using assms
  by (auto simp: add_test_image_def Let_def split: sum.splits option.splits)

text \<open>
  C6, as amended. The positions of a test image in the batch are as many as its
  presentations. One presentation fills the three repeat slots with its position, two
  fill them with the first, the second and the first again, three fill them each once;
  more than three fail the assertion \<^verbatim>\<open>len(locs) == 3\<close> and nothing is grouped. Whenever
  an image is added to the test set it has one to three presentations and is added with
  exactly three slots, drawn from its own positions.
\<close>

theorem repeat_grouping:
  "length (torch_where_eq im image_ids) = count_list image_ids im \<and>
   (count_list image_ids im = 1 \<longrightarrow>
      pad_locs (torch_where_eq im image_ids)
        = Inr [torch_where_eq im image_ids ! 0, torch_where_eq im image_ids ! 0,
               torch_where_eq im image_ids ! 0]) \<and>
   (count_list image_ids im = 2 \<longrightarrow>
      pad_locs (torch_where_eq im image_ids)
        = Inr [torch_where_eq im image_ids ! 0, torch_where_eq im image_ids ! 1,
               torch_where_eq im image_ids ! 0]) \<and>
   (count_list image_ids im = 3 \<longrightarrow>
      pad_locs (torch_where_eq im image_ids) = Inr (torch_where_eq im image_ids)) \<and>
   (3 < count_list image_ids im \<longrightarrow>
      pad_locs (torch_where_eq im image_ids) = Inl AssertionError \<and>
      add_test_image C voxel image_ids TS im = Inl AssertionError) \<and>
   (\<forall>TS'. add_test_image C voxel image_ids TS im = Inr TS' \<longrightarrow>
      (\<exists>padded tv.
         pad_locs (torch_where_eq im image_ids) = Inr padded \<and>
         length padded = 3 \<and> set padded = set (torch_where_eq im image_ids) \<and>
         test_voxel TS' = Some (tv @ [map (\<lambda>l. voxel ! l) padded]) \<and>
         length (map (\<lambda>l. voxel ! l) padded) = 3 \<and>
         1 \<le> count_list image_ids im \<and> count_list image_ids im \<le> 3))"
proof (intro conjI impI allI)
  let ?locs = "torch_where_eq im image_ids"
  show len: "length ?locs = count_list image_ids im"
    by (rule torch_where_eq_length)
  show "pad_locs ?locs = Inr [?locs ! 0, ?locs ! 0, ?locs ! 0]" if "count_list image_ids im = 1"
    using that len pad_locs_one [of ?locs] by simp
  show "pad_locs ?locs = Inr [?locs ! 0, ?locs ! 1, ?locs ! 0]" if "count_list image_ids im = 2"
    using that len pad_locs_two [of ?locs] by simp
  show "pad_locs ?locs = Inr ?locs" if "count_list image_ids im = 3"
    using that len pad_locs_three [of ?locs] by simp
  show many: "pad_locs ?locs = Inl AssertionError" if "3 < count_list image_ids im"
    using that len pad_locs_other [of ?locs] by simp
  show "add_test_image C voxel image_ids TS im = Inl AssertionError"
    if "3 < count_list image_ids im"
    using many [OF that] by (simp add: add_test_image_def)
  fix TS'
  assume "add_test_image C voxel image_ids TS im = Inr TS'"
  from add_test_image_Inr [OF this] obtain padded tv where
    p: "pad_locs ?locs = Inr padded" and
    v: "test_voxel TS' = Some (tv @ [map (\<lambda>l. voxel ! l) padded])" by blast
  from pad_locs_Inr [OF p] len p v
  show "\<exists>padded tv.
         pad_locs ?locs = Inr padded \<and>
         length padded = 3 \<and> set padded = set ?locs \<and>
         test_voxel TS' = Some (tv @ [map (\<lambda>l. voxel ! l) padded]) \<and>
         length (map (\<lambda>l. voxel ! l) padded) = 3 \<and>
         1 \<le> count_list image_ids im \<and> count_list image_ids im \<le> 3"
    by auto
qed

lemma demo_where_7: "torch_where_eq 7 [7, 9, 7, 8, 8, 8] = [0, 2]"
  by (simp add: torch_where_eq_def upt_rec)

lemma demo_where_9: "torch_where_eq 9 [7, 9, 7, 8, 8, 8] = [1]"
  by (simp add: torch_where_eq_def upt_rec)

lemma demo_where_8: "torch_where_eq 8 [7, 9, 7, 8, 8, 8] = [3, 4, 5]"
  by (simp add: torch_where_eq_def upt_rec)

theorem repeat_grouping_witness:
  "count_list [7, 9, 7, 8, 8, 8 :: int] 9 = 1 \<and>
   pad_locs (torch_where_eq 9 [7, 9, 7, 8, 8, 8]) = Inr [1, 1, 1] \<and>
   count_list [7, 9, 7, 8, 8, 8 :: int] 7 = 2 \<and>
   pad_locs (torch_where_eq 7 [7, 9, 7, 8, 8, 8]) = Inr [0, 2, 0] \<and>
   count_list [7, 9, 7, 8, 8, 8 :: int] 8 = 3 \<and>
   pad_locs (torch_where_eq 8 [7, 9, 7, 8, 8, 8]) = Inr [3, 4, 5] \<and>
   3 < count_list [4, 4, 4, 4 :: int] 4 \<and>
   pad_locs (torch_where_eq 4 [4, 4, 4, 4]) = Inl AssertionError"
proof -
  have c9: "count_list [7, 9, 7, 8, 8, 8 :: int] 9 = 1"
    and c7: "count_list [7, 9, 7, 8, 8, 8 :: int] 7 = 2"
    and c8: "count_list [7, 9, 7, 8, 8, 8 :: int] 8 = 3"
    and c4: "3 < count_list [4, 4, 4, 4 :: int] 4"
    by simp_all
  have p9: "pad_locs (torch_where_eq 9 [7, 9, 7, 8, 8, 8]) = Inr [1, 1, 1]"
    using repeat_grouping [of 9 "[7, 9, 7, 8, 8, 8]", THEN conjunct2, THEN conjunct1, rule_format, OF c9]
    by (simp add: demo_where_9)
  have p7: "pad_locs (torch_where_eq 7 [7, 9, 7, 8, 8, 8]) = Inr [0, 2, 0]"
    using repeat_grouping [of 7 "[7, 9, 7, 8, 8, 8]", THEN conjunct2, THEN conjunct2,
        THEN conjunct1, rule_format, OF c7]
    by (simp add: demo_where_7)
  have p8: "pad_locs (torch_where_eq 8 [7, 9, 7, 8, 8, 8]) = Inr [3, 4, 5]"
    using repeat_grouping [of 8 "[7, 9, 7, 8, 8, 8]", THEN conjunct2, THEN conjunct2,
        THEN conjunct2, THEN conjunct1, rule_format, OF c8]
    by (simp add: demo_where_8)
  have p4: "pad_locs (torch_where_eq 4 [4, 4, 4, 4]) = Inl AssertionError"
    using repeat_grouping [of 4 "[4, 4, 4, 4]", THEN conjunct2, THEN conjunct2,
        THEN conjunct2, THEN conjunct2, THEN conjunct1, rule_format, OF c4]
    by (rule conjunct1)
  show ?thesis
    by (intro conjI c9 c7 c8 c4 p9 p7 p8 p4)
qed

text \<open>
  C6 as stated fails on a test batch that presents one image four times: the grouping
  yields no slots, the assertion raises.
\<close>

theorem four_presentations_counterexample:
  "count_list [4, 4, 4, 4 :: int] 4 = 4 \<and>
   pad_locs (torch_where_eq 4 [4, 4, 4, 4]) = Inl AssertionError \<and>
   build_test_set demo_ctx 1 [(4, 0), (4, 1), (4, 2), (4, 3)] no_test_set = Inl AssertionError"
  by (simp add: torch_where_eq_def upt_rec pad_locs_def build_test_set_def no_test_set_def
      demo_ctx_def voxel_col_def image_col_def add_test_image_def)

section \<open>A total loss that is not finite\<close>

lemma finish_iteration_non_finite:
  "\<not> is_finite loss \<Longrightarrow> finish_iteration T loss S = Inl ValueError"
  by (simp add: finish_iteration_def check_loss_def)

lemma finish_iteration_finite:
  "is_finite loss \<Longrightarrow> \<exists>S'. finish_iteration T loss S = Inr S'"
  by (simp add: finish_iteration_def check_loss_def Let_def split: prod.splits)

lemma train_iterations_finite:
  "list_all is_finite ls \<Longrightarrow> snd (train_iterations T ls S) = None"
proof (induction ls arbitrary: S)
  case Nil
  show ?case by simp
next
  case (Cons l ls)
  then obtain S' where "finish_iteration T l S = Inr S'"
    using finish_iteration_finite [of l T S] by auto
  then show ?case using Cons by simp
qed

lemma train_iterations_append:
  "snd (train_iterations T pre S) = None \<Longrightarrow>
   train_iterations T (pre @ rest) S = train_iterations T rest (fst (train_iterations T pre S))"
proof (induction pre arbitrary: S)
  case Nil
  show ?case by simp
next
  case (Cons l pre)
  then show ?case by (cases "finish_iteration T l S") simp_all
qed

text \<open>
  C7, as amended. When the total loss of an iteration is not finite, \<^verbatim>\<open>check_loss\<close>
  raises before the backward pass and the optimizer step: the iteration changes nothing,
  the state is the one the finite iterations before it left. Nothing catches the
  exception, so the loop over the iterations and the loop over the epochs end there; no
  later iteration and no later epoch runs.
\<close>

theorem non_finite_loss_ends_run:
  assumes "list_all is_finite before" and "\<not> is_finite bad"
  shows "finish_iteration T bad (fst (train_iterations T before S)) = Inl ValueError \<and>
         snd (train_iterations T before S) = None \<and>
         train_iterations T (before @ bad # after) S
           = (fst (train_iterations T before S), Some ValueError) \<and>
         train_epochs T e ((before @ bad # after) # later_epochs) S
           = (fst (train_iterations T before (S\<lparr>cur_epoch := e\<rparr>)), Some ValueError)"
proof -
  have none: "snd (train_iterations T before S') = None" for S'
    using assms(1) by (rule train_iterations_finite)
  have bad: "finish_iteration T bad (fst (train_iterations T before S')) = Inl ValueError" for S'
    using assms(2) by (rule finish_iteration_non_finite)
  have run: "train_iterations T (before @ bad # after) S'
           = (fst (train_iterations T before S'), Some ValueError)" for S'
    using train_iterations_append [OF none, of "bad # after"] bad by simp
  show ?thesis using none bad run by simp
qed

lemma demo_one_step:
  "train_iterations demo_ops [Finite 1] demo_state =
     (demo_state\<lparr>optimizer_state := 1, scheduler_state := 1,
                  losses := [Finite 1], lrs := [3 / 10000]\<rparr>, None)"
  by (simp add: demo_ops_def demo_state_def finish_iteration_def check_loss_def)

theorem non_finite_loss_ends_run_witness:
  "list_all is_finite [Finite 1] \<and> \<not> is_finite NaN \<and>
   train_iterations demo_ops ([Finite 1] @ NaN # [Finite 2]) demo_state
     = (demo_state\<lparr>optimizer_state := 1, scheduler_state := 1,
                    losses := [Finite 1], lrs := [3 / 10000]\<rparr>, Some ValueError) \<and>
   train_epochs demo_ops 0 (([Finite 1] @ NaN # [Finite 2]) # [[Finite 3]]) demo_state
     = (demo_state\<lparr>optimizer_state := 1, scheduler_state := 1,
                    losses := [Finite 1], lrs := [3 / 10000]\<rparr>, Some ValueError)"
proof -
  have h1: "list_all is_finite [Finite 1]" by simp
  have h2: "\<not> is_finite NaN" by simp
  have z: "demo_state\<lparr>cur_epoch := 0\<rparr> = demo_state"
    by (simp add: demo_state_def)
  note t = non_finite_loss_ends_run [OF h1 h2, of demo_ops demo_state "[Finite 2]" 0 "[[Finite 3]]"]
  have a: "train_iterations demo_ops ([Finite 1] @ NaN # [Finite 2]) demo_state
     = (demo_state\<lparr>optimizer_state := 1, scheduler_state := 1,
                    losses := [Finite 1], lrs := [3 / 10000]\<rparr>, Some ValueError)"
    using t [THEN conjunct2, THEN conjunct2, THEN conjunct1] by (simp only: demo_one_step fst_conv)
  have b: "train_epochs demo_ops 0 (([Finite 1] @ NaN # [Finite 2]) # [[Finite 3]]) demo_state
     = (demo_state\<lparr>optimizer_state := 1, scheduler_state := 1,
                    losses := [Finite 1], lrs := [3 / 10000]\<rparr>, Some ValueError)"
    using t [THEN conjunct2, THEN conjunct2, THEN conjunct2]
    by (simp only: z demo_one_step fst_conv)
  show ?thesis by (intro conjI h1 h2 a b)
qed

text \<open>
  C7 as stated fails on a run whose first total loss is a NaN: the run ends at once, with
  no optimizer step, where the two finite losses after it would have made two.
\<close>

theorem run_continues_counterexample:
  "train_epochs demo_ops 0 [[NaN, Finite 1], [Finite 2]] demo_state
     = (demo_state, Some ValueError) \<and>
   optimizer_state demo_state = 0 \<and> losses demo_state = [] \<and>
   train_epochs demo_ops 0 [[Finite 1], [Finite 2]] demo_state
     = (demo_state\<lparr>cur_epoch := 1, optimizer_state := 2, scheduler_state := 2,
                    losses := [Finite 1, Finite 2], lrs := [3 / 10000, 3 / 10000]\<rparr>, None)"
  by (simp add: demo_ops_def demo_state_def finish_iteration_def check_loss_def)

section \<open>Saving and loading a checkpoint\<close>

lemma load_ckpt_ignores_tag:
  "load_ckpt tag load_lr load_optimizer load_epoch strict outdir multisubj_loading S fs =
   load_ckpt ''last'' load_lr load_optimizer load_epoch strict outdir multisubj_loading S fs"
  by (simp add: load_ckpt_def)

lemma save_ckpt_last_file:
  "save_ckpt outdir True ''last'' S fs (outdir @ ''/last.pth'') =
     Some \<lparr>ck_epoch = cur_epoch S, ck_model_state_dict = model_params S,
           ck_optimizer_state_dict = optimizer_state S, ck_lr_scheduler = scheduler_state S,
           ck_train_losses = losses S, ck_test_losses = test_losses S, ck_lrs = lrs S\<rparr>"
  by (simp add: save_ckpt_def)

lemma load_state_dict_same: "distinct (map fst own) \<Longrightarrow> map fst sd = map fst own \<Longrightarrow>
   load_state_dict own sd True = Inr sd"
proof -
  assume d: "distinct (map fst own)" and n: "map fst sd = map fst own"
  have "map (\<lambda>(name, v). case map_of sd name of None \<Rightarrow> (name, v) | Some v' \<Rightarrow> (name, v')) own = sd"
    using d n
  proof (induction own arbitrary: sd)
    case Nil
    then show ?case by simp
  next
    case (Cons p own)
    then obtain q sd' where sd: "sd = q # sd'" by (cases sd) auto
    obtain k v where p: "p = (k, v)" by (cases p)
    obtain k' v' where q: "q = (k', v')" by (cases q)
    have kk: "k' = k" and names: "map fst sd' = map fst own" using Cons.prems sd p q by auto
    have notin: "k \<notin> fst ` set own" and d': "distinct (map fst own)" using Cons.prems p by auto
    have "map (\<lambda>(name, v). case map_of sd name of None \<Rightarrow> (name, v) | Some v' \<Rightarrow> (name, v')) own
        = map (\<lambda>(name, v). case map_of sd' name of None \<Rightarrow> (name, v) | Some v' \<Rightarrow> (name, v')) own"
      using notin by (intro map_cong) (force simp: sd q kk)+
    then show ?case
      using Cons.IH [OF d' names] by (simp add: sd p q kk)
  qed
  then show ?thesis using n by (simp add: load_state_dict_def)
qed

text \<open>
  Saving under the tag \<^verbatim>\<open>last\<close> and loading with every flag set gives back the epoch
  counter, the optimizer, the scheduler and the parameters, whatever tag the load names.
\<close>

lemma last_round_trip:
  assumes "distinct (map fst (model_params S'))"
    and "map fst (model_params S) = map fst (model_params S')"
  shows "load_ckpt tag True True True True outdir False S' (save_ckpt outdir True ''last'' S fs)
     = Inr (S'\<lparr>model_params := model_params S, cur_epoch := cur_epoch S,
                optimizer_state := optimizer_state S, scheduler_state := scheduler_state S\<rparr>)"
  using load_state_dict_same [OF assms]
  by (simp add: load_ckpt_def save_ckpt_last_file Let_def)

text \<open>
  C3. The round trip through a tag other than \<^verbatim>\<open>last\<close> fails: after the state of epoch
  5 is saved under \<^verbatim>\<open>ckpt_5\<close>, loading \<^verbatim>\<open>ckpt_5\<close> with every flag set finds no file
  when \<^verbatim>\<open>last.pth\<close> is absent, and otherwise restores what \<^verbatim>\<open>last.pth\<close> holds, here
  the state of epoch 2, with another epoch counter, optimizer state and weights than the
  saved ones.
\<close>

theorem load_ckpt_reads_last_not_tag:
  "load_ckpt ''ckpt_5'' True True True True ''out'' False demo_state
     (save_ckpt ''out'' True ''ckpt_5'' (demo_trained 5) Map.empty) = Inl FileNotFoundError \<and>
   load_ckpt ''ckpt_5'' True True True True ''out'' False demo_state
     (save_ckpt ''out'' True ''ckpt_5'' (demo_trained 5)
        (save_ckpt ''out'' True ''last'' (demo_trained 2) Map.empty)) = Inr (demo_trained 2) \<and>
   cur_epoch (demo_trained 2) \<noteq> cur_epoch (demo_trained 5) \<and>
   optimizer_state (demo_trained 2) \<noteq> optimizer_state (demo_trained 5) \<and>
   model_params (demo_trained 2) \<noteq> model_params (demo_trained 5)"
  by (simp add: load_ckpt_def save_ckpt_def load_state_dict_def demo_trained_def demo_state_def)

section \<open>The test set is built once\<close>

lemma build_test_set_kept:
  "test_image TS \<noteq> None \<Longrightarrow> build_test_set C subj behav TS = Inr TS"
  by (auto simp: build_test_set_def)

lemma eval_inputs_Inr:
  assumes "eval_inputs C subj behav TS = Inr (TS', ev)"
  shows "build_test_set C subj behav TS = Inr TS' \<and>
         test_voxel TS' = Some (fst ev) \<and> test_image TS' = Some (snd ev)"
  using assms by (auto simp: eval_inputs_def split: sum.splits option.splits)

lemma eval_batches_kept:
  assumes "test_image TS \<noteq> None" and "eval_batches C subj batches TS = Inr (TS', evs)"
  shows "TS' = TS \<and> length evs = length batches \<and>
         (\<forall>ev \<in> set evs. test_voxel TS = Some (fst ev) \<and> test_image TS = Some (snd ev))"
  using assms
proof (induction batches arbitrary: TS' evs)
  case Nil
  then show ?case by simp
next
  case (Cons behav later)
  from Cons.prems(2) obtain TS1 ev TS2 evs' where
    e1: "eval_inputs C subj behav TS = Inr (TS1, ev)" and
    e2: "eval_batches C subj later TS1 = Inr (TS2, evs')" and
    r: "TS' = TS2" "evs = ev # evs'"
    by (auto split: sum.splits prod.splits)
  from eval_inputs_Inr [OF e1] build_test_set_kept [OF Cons.prems(1), of C subj behav]
  have same: "TS1 = TS" and ev: "test_voxel TS = Some (fst ev)" "test_image TS = Some (snd ev)"
    by simp_all
  from Cons.IH [OF Cons.prems(1) e2 [unfolded same]] r ev
  show ?case by simp
qed

lemma eval_batches_append:
  "eval_batches C subj (xs @ ys) TS =
     (case eval_batches C subj xs TS of
        Inl e \<Rightarrow> Inl e
      | Inr (TS', evs) \<Rightarrow>
          (case eval_batches C subj ys TS' of
             Inl e \<Rightarrow> Inl e
           | Inr (TS'', evs') \<Rightarrow> Inr (TS'', evs @ evs')))"
  by (induction xs arbitrary: TS) (auto split: sum.splits prod.splits)

lemma eval_epochs_concat:
  "eval_epochs C subj epochs TS = eval_batches C subj (concat epochs) TS"
  by (induction epochs arbitrary: TS) (auto simp: eval_batches_append split: sum.splits prod.splits)

text \<open>
  C10. In a run of the evaluation over the epochs that raises nothing, the test set is
  the one built from the first test batch the loader yields, built while \<^verbatim>\<open>test_image\<close>
  was still \<^verbatim>\<open>None\<close>; from then on \<^verbatim>\<open>test_image\<close> is set and no batch changes the
  test set, and every test batch of every epoch is evaluated on all of this set's voxel
  repeats and images.
\<close>

theorem test_set_built_once:
  assumes "eval_epochs C subj epochs no_test_set = Inr (TS, evs)"
    and "concat epochs = behav # later"
  shows "build_test_set C subj behav no_test_set = Inr TS \<and>
         test_image TS \<noteq> None \<and>
         length evs = length (concat epochs) \<and>
         (\<forall>ev \<in> set evs. test_voxel TS = Some (fst ev) \<and> test_image TS = Some (snd ev)) \<and>
         (\<forall>behav'. build_test_set C subj behav' TS = Inr TS)"
proof -
  have "eval_batches C subj (behav # later) no_test_set = Inr (TS, evs)"
    using assms by (simp add: eval_epochs_concat)
  then obtain TS1 ev evs' where
    e1: "eval_inputs C subj behav no_test_set = Inr (TS1, ev)" and
    e2: "eval_batches C subj later TS1 = Inr (TS, evs')" and
    r: "evs = ev # evs'"
    by (auto split: sum.splits prod.splits)
  from eval_inputs_Inr [OF e1]
  have b: "build_test_set C subj behav no_test_set = Inr TS1"
    and v: "test_voxel TS1 = Some (fst ev)" and i: "test_image TS1 = Some (snd ev)"
    by simp_all
  have set1: "test_image TS1 \<noteq> None" using i by simp
  from eval_batches_kept [OF set1 e2]
  have same: "TS = TS1" and len: "length evs' = length later"
    and all: "\<forall>ev \<in> set evs'. test_voxel TS1 = Some (fst ev) \<and> test_image TS1 = Some (snd ev)"
    by simp_all
  show ?thesis
    using b v i set1 same len all r assms(2) build_test_set_kept [OF set1] by simp
qed

lemma demo_eval_epochs:
  "eval_epochs demo_ctx 1 demo_test_epochs no_test_set =
     Inr (demo_test_set,
          [([[11, 11, 11], [10, 12, 10]], [''two'', ''five'']),
           ([[11, 11, 11], [10, 12, 10]], [''two'', ''five'']),
           ([[11, 11, 11], [10, 12, 10]], [''two'', ''five''])])"
  by (simp add: demo_test_epochs_def no_test_set_def demo_test_set_def eval_inputs_def
      build_test_set_def demo_ctx_def voxel_col_def image_col_def add_test_image_def
      torch_where_eq_def pad_locs_def upt_rec numeral_2_eq_2 numeral_3_eq_3)

theorem test_set_built_once_witness:
  "eval_epochs demo_ctx 1 demo_test_epochs no_test_set =
     Inr (demo_test_set,
          [([[11, 11, 11], [10, 12, 10]], [''two'', ''five'']),
           ([[11, 11, 11], [10, 12, 10]], [''two'', ''five'']),
           ([[11, 11, 11], [10, 12, 10]], [''two'', ''five''])]) \<and>
   concat demo_test_epochs = [(5, 0), (2, 1), (5, 2)] # [[(7, 3)], [(7, 3), (2, 1)]] \<and>
   build_test_set demo_ctx 1 [(5, 0), (2, 1), (5, 2)] no_test_set = Inr demo_test_set \<and>
   test_image demo_test_set \<noteq> None"
proof -
  have h2: "concat demo_test_epochs = [(5, 0), (2, 1), (5, 2)] # [[(7, 3)], [(7, 3), (2, 1)]]"
    by (simp add: demo_test_epochs_def)
  note t = test_set_built_once [OF demo_eval_epochs h2]
  show ?thesis
    by (intro conjI demo_eval_epochs h2 t [THEN conjunct1] t [THEN conjunct2, THEN conjunct1])
qed

section \<open>The buffers of an epoch hold paired entries\<close>










end
